theory Spec2Isabelle
  imports Complex_Main
begin

section \<open>Go strings, as byte strings\<close>

text \<open>
  A Go \<open>string\<close> is a sequence of bytes, modelled as a \<open>char list\<close>. The functions of
  Go's \<open>strings\<close> package that the sources call are written out below on bytes.
  \<open>TrimSpace\<close> and \<open>ToLower\<close> are given on their ASCII behaviour (Go additionally treats
  some non-ASCII code points as white space or as upper-case letters); every example below
  is ASCII, and the general theorems use these two functions only through the predicates
  that the source builds from them.
\<close>

abbreviation NL :: char where "NL \<equiv> CHR 0x0A"

fun HasPrefix :: "string \<Rightarrow> string \<Rightarrow> bool" where
  "HasPrefix s [] = True"
| "HasPrefix [] (p # ps) = False"
| "HasPrefix (c # cs) (p # ps) = (c = p \<and> HasPrefix cs ps)"

definition HasSuffix :: "string \<Rightarrow> string \<Rightarrow> bool" where
  "HasSuffix s suf = HasPrefix (rev s) (rev suf)"

fun Contains :: "string \<Rightarrow> string \<Rightarrow> bool" where
  "Contains [] sub = (sub = [])"
| "Contains (c # cs) sub = (HasPrefix (c # cs) sub \<or> Contains cs sub)"

definition TrimPrefix :: "string \<Rightarrow> string \<Rightarrow> string" where
  "TrimPrefix s p = (if HasPrefix s p then drop (length p) s else s)"

definition isSpace :: "char \<Rightarrow> bool" where
  "isSpace c = (c = CHR 0x09 \<or> c = NL \<or> c = CHR 0x0B \<or> c = CHR 0x0C \<or> c = CHR 0x0D
     \<or> c = CHR '' '')"

definition TrimSpace :: "string \<Rightarrow> string" where
  "TrimSpace s = rev (dropWhile isSpace (rev (dropWhile isSpace s)))"

definition TrimLeftSpaces :: "string \<Rightarrow> string" where
  \<comment> \<open>\<open>strings.TrimLeft(s, " ")\<close>\<close>
  "TrimLeftSpaces s = dropWhile (\<lambda>c. c = CHR '' '') s"

definition toLowerByte :: "char \<Rightarrow> char" where
  \<comment> \<open>\<open>c + ('a' - 'A')\<close> for \<open>'A' \<le> c \<le> 'Z'\<close>: adding 32 sets bit 5, which is clear there\<close>
  "toLowerByte c =
     (if 65 \<le> (of_char c :: nat) \<and> (of_char c :: nat) \<le> 90
      then (case c of Char b0 b1 b2 b3 b4 b5 b6 b7 \<Rightarrow> Char b0 b1 b2 b3 b4 True b6 b7)
      else c)"

definition ToLower :: "string \<Rightarrow> string" where
  "ToLower s = map toLowerByte s"

fun Join :: "string list \<Rightarrow> string \<Rightarrow> string" where
  "Join [] sep = []"
| "Join [x] sep = x"
| "Join (x # y # ys) sep = x @ sep @ Join (y # ys) sep"

definition SplitN2 :: "string \<Rightarrow> char \<Rightarrow> string list" where
  \<comment> \<open>\<open>strings.SplitN(s, sep, 2)\<close> for a one-byte separator\<close>
  "SplitN2 s sep = (case dropWhile (\<lambda>c. c \<noteq> sep) s of
     [] \<Rightarrow> [s]
   | _ # rest \<Rightarrow> [takeWhile (\<lambda>c. c \<noteq> sep) s, rest])"

definition dropCR :: "string \<Rightarrow> string" where
  "dropCR l = (if l \<noteq> [] \<and> last l = CHR 0x0D then butlast l else l)"

text \<open>
  \<open>bufio.Scanner\<close> with its default \<open>ScanLines\<close>: the text is cut at every newline, one
  trailing carriage return is dropped from each line, and a last line without a newline is
  returned when it is not empty. (The scanner's 64 KiB limit on a line is not modelled.)
\<close>

fun scanFrom :: "string \<Rightarrow> string \<Rightarrow> string list" where
  "scanFrom cur [] = (if cur = [] then [] else [dropCR cur])"
| "scanFrom cur (c # cs) =
     (if c = NL then dropCR cur # scanFrom [] cs else scanFrom (cur @ [c]) cs)"

definition scanLines :: "string \<Rightarrow> string list" where
  "scanLines text = scanFrom [] text"

section \<open>Decoded values\<close>

text \<open>
  The generator works on Go's \<open>any\<close>. The dynamic types that the YAML decoder produces,
  and that the sources inspect by reflection, are: nil, bool, the signed and unsigned
  integer kinds, the float kinds, string, \<open>[]any\<close>, \<open>map[any]any\<close> (as decoded)
  and \<open>map[string]any\<close> (after conversion). A Go map is given as an association list,
  whose order stands for one iteration order of the map. The payload of a float is only
  carried along, never computed with.
\<close>

datatype any =
    VNil
  | VBool bool
  | VInt int
  | VUint nat
  | VFloat real
  | VStr string
  | VSlice "any list"
  | VMapAny "(any \<times> any) list"
  | VMapStr "(string \<times> any) list"

datatype SchemaType =
  TypeArray | TypeBoolean | TypeInteger | TypeNull | TypeNumber | TypeObject | TypeString

text \<open>
  The field \<open>Type any\<close> of a schema: unset, one tag, or a list of tags, as the generator
  sets it. (A list of plain strings, as a JSON decoder would leave it, is not modelled.)
\<close>

datatype TypeField = NoType | Single SchemaType | UnionOf "SchemaType list"

section \<open>Mixed-type arrays (type_detection.go)\<close>

text \<open>
  The key under which \<open>hasMixedTypes\<close> records a non-nil element in \<open>foundTypes\<close>:
  \<open>"integer"\<close> for the integer kinds, \<open>"float"\<close> for the float kinds, and
  \<open>Kind.String()\<close> otherwise.
\<close>

fun kindKey :: "any \<Rightarrow> string" where
  "kindKey VNil = ''null''"
| "kindKey (VBool b) = ''bool''"
| "kindKey (VInt i) = ''integer''"
| "kindKey (VUint n) = ''integer''"
| "kindKey (VFloat r) = ''float''"
| "kindKey (VStr s) = ''string''"
| "kindKey (VSlice xs) = ''slice''"
| "kindKey (VMapAny kvs) = ''map''"
| "kindKey (VMapStr kvs) = ''map''"

text \<open>
  The loop of \<open>hasMixedTypes\<close>; \<open>found\<close> holds the keys of the map \<open>foundTypes\<close>.
  A nil element is recorded and the loop continues without the early check.
\<close>

fun mixedLoop :: "any list \<Rightarrow> string list \<Rightarrow> bool" where
  "mixedLoop [] found = (length found > 1)"
| "mixedLoop (item # rest) found =
     (if item = VNil then mixedLoop rest (List.insert ''null'' found)
      else (let found' = List.insert (kindKey item) found in
            if length found' > 1 then True else mixedLoop rest found'))"

definition hasMixedTypes :: "any list \<Rightarrow> bool" where
  "hasMixedTypes items = (if length items \<le> 1 then False else mixedLoop items [])"

text \<open>
  The first loop of \<open>InferArrayItemsWithMultipleTypes\<close>: the key an element adds to
  \<open>typeMap\<close>, if any.
\<close>

fun typeMapKey :: "any \<Rightarrow> string option" where
  "typeMapKey VNil = Some ''null''"
| "typeMapKey (VBool b) = Some ''boolean''"
| "typeMapKey (VInt i) = Some ''number''"
| "typeMapKey (VUint n) = Some ''number''"
| "typeMapKey (VFloat r) = Some ''number''"
| "typeMapKey (VStr s) = Some ''string''"
| "typeMapKey (VMapAny kvs) = Some ''object''"
| "typeMapKey (VMapStr kvs) = Some ''object''"
| "typeMapKey (VSlice xs) = Some ''array''"

fun typeMapOf :: "any list \<Rightarrow> string list \<Rightarrow> string list" where
  "typeMapOf [] tm = tm"
| "typeMapOf (item # rest) tm =
     (case typeMapKey item of
        None \<Rightarrow> typeMapOf rest tm
      | Some k \<Rightarrow> typeMapOf rest (if k \<in> set tm then tm else tm @ [k]))"

text \<open>
  The second loop ranges over \<open>typeMap\<close>, in an order Go leaves open; the model takes the
  order in which the keys were first added.
\<close>

definition typeOfName :: "string \<Rightarrow> SchemaType option" where
  "typeOfName n =
     (if n = ''null'' then Some TypeNull
      else if n = ''boolean'' then Some TypeBoolean
      else if n = ''integer'' then Some TypeInteger
      else if n = ''number'' then Some TypeNumber
      else if n = ''string'' then Some TypeString
      else if n = ''object'' then Some TypeObject
      else if n = ''array'' then Some TypeArray
      else None)"

fun typeArrayOf :: "string list \<Rightarrow> SchemaType list" where
  "typeArrayOf [] = []"
| "typeArrayOf (n # ns) =
     (case typeOfName n of None \<Rightarrow> typeArrayOf ns | Some t \<Rightarrow> t # typeArrayOf ns)"

definition mixedTypeArray :: "any list \<Rightarrow> SchemaType list" where
  "mixedTypeArray items = typeArrayOf (typeMapOf items [])"

section \<open>The pattern table (shouldSupportMultipleTypes)\<close>

record patternMapping =
  patterns :: "string list"
  matchType :: string
  types :: "SchemaType list"

definition objectOrString :: patternMapping where
  "objectOrString = \<lparr>patterns =
     [''annotations'', ''labels'', ''nodeselector'', ''securitycontext'',
      ''affinity'', ''strategy'', ''networkpolicy'', ''objectselector'',
      ''poddisruptionbudget'', ''hostaliases'', ''matchlabels'',
      ''nodeaffinity'', ''podaffinity'', ''podantiaffinity'', ''selector'',
      ''topology'', ''rules'', ''expressions'', ''rollingupdate''],
     matchType = ''contains'', types = [TypeObject, TypeString]\<rparr>"

definition stringOrBoolean :: patternMapping where
  "stringOrBoolean = \<lparr>patterns =
     [''autoscaling'', ''forceupgrade'', ''createnamespace'', ''autosync'',
      ''persistence'', ''tls'', ''auth'', ''hostnetwork'', ''hostpid'', ''hostipc'',
      ''singlenamespace'', ''debug'', ''rbac'', ''monitoring'', ''istio'',
      ''serviceaccount'', ''automounttoken'', ''priorityclass'', ''metrics'',
      ''tracing''],
     matchType = ''contains'', types = [TypeBoolean, TypeString]\<rparr>"

definition enabledFields :: patternMapping where
  "enabledFields = \<lparr>patterns = [''enabled''],
     matchType = ''exact-or-suffix'', types = [TypeBoolean, TypeString]\<rparr>"

definition nullArrayString :: patternMapping where
  "nullArrayString = \<lparr>patterns =
     [''tolerations'', ''topologyspreadconstraints'', ''volumes'',
      ''initcontainers'', ''extracontainers'', ''volumemounts'',
      ''imagepullsecrets'', ''hostalias'', ''sidecars'', ''extravolumes'',
      ''extrainitcontainers'', ''envfrom'', ''args'', ''command'', ''ports'',
      ''env'', ''environment'', ''secrets'', ''configmaps'', ''pods'',
      ''endpoints'', ''tls.hosts'', ''ingress.hosts'', ''hostAliases'',
      ''deploymentannotations'', ''podsecuritycontext'', ''permissions''],
     matchType = ''contains'', types = [TypeNull, TypeArray, TypeString]\<rparr>"

definition nullString :: patternMapping where
  "nullString = \<lparr>patterns =
     [''secretname'', ''storageclass'', ''servicenodeport'', ''priorityclassname'',
      ''certname'', ''keyname'', ''cabundle'', ''ingressclassname'', ''authsecret'',
      ''namespace'', ''finalizer'', ''servicename'', ''clusterrole'', ''role'',
      ''healthcheckpath'', ''mountpath'', ''filename'', ''secretkey'', ''timezone'',
      ''bootstrapservers'', ''topic''],
     matchType = ''contains'', types = [TypeNull, TypeString]\<rparr>"

definition nullInteger :: patternMapping where
  "nullInteger = \<lparr>patterns =
     [''maxunavailable'', ''nodeport'', ''replicacount'', ''replicas'',
      ''port'', ''targetport'', ''containerport'', ''serviceport'', ''metricsport'',
      ''healthport'', ''readinessport'', ''maxreplicas'', ''minreplicas'',
      ''terminationgraceperiodseconds'', ''backofflimit'', ''failurethreshold'',
      ''successthreshold'', ''initialdelayseconds'', ''timeoutseconds'',
      ''periodseconds'', ''minavailable'', ''retention'', ''timeout'', ''limit'',
      ''weight''],
     matchType = ''contains'', types = [TypeNull, TypeInteger]\<rparr>"

definition configBlocks :: patternMapping where
  "configBlocks = \<lparr>patterns =
     [''config'', ''extraenv'', ''extraenvironmentvars'', ''extravolumeconfig'',
      ''configuration'', ''settings'', ''options'', ''parameters'', ''properties'',
      ''authentication'', ''authorization'', ''security'', ''networking'',
      ''customvalues'', ''extraconfigs''],
     matchType = ''contains'', types = [TypeString, TypeObject]\<rparr>"

definition numericTypes :: patternMapping where
  "numericTypes = \<lparr>patterns =
     [''resources.limits.memory'', ''resources.requests.memory'', ''memory'',
      ''resources.limits.cpu'', ''resources.requests.cpu'', ''cpu'',
      ''resources.limits'', ''resources.requests'',
      ''threshold'', ''percentage'', ''ratio'', ''factor'', ''scalar'', ''weight'',
      ''scale'', ''bytes'', ''size'', ''quota'', ''maxsurge'', ''minavailable'',
      ''retention''],
     matchType = ''contains'', types = [TypeString, TypeInteger, TypeNumber]\<rparr>"

definition stringIntegerBoolean :: patternMapping where
  "stringIntegerBoolean = \<lparr>patterns =
     [''preference'', ''mode'', ''state'', ''status'', ''level'', ''type'',
      ''policy'', ''protocol''],
     matchType = ''contains'', types = [TypeString, TypeInteger, TypeBoolean]\<rparr>"

definition jsonFields :: patternMapping where
  "jsonFields = \<lparr>patterns =
     [''json'', ''raw'', ''patch'', ''template'', ''customdata'', ''extradata'',
      ''override'', ''manifest''],
     matchType = ''contains'', types = [TypeString, TypeObject, TypeArray]\<rparr>"

definition kubernetesFields :: patternMapping where
  "kubernetesFields = \<lparr>patterns =
     [''containerport'', ''servicetype'', ''ingresstype'', ''secrettype'',
      ''podannotations'', ''accessmodes'', ''pathtype'', ''readinessprobe'',
      ''livenessprobe'', ''startupprobe'', ''volumesource'', ''volumetype'',
      ''service.containerport''],
     matchType = ''contains'', types = [TypeString, TypeObject, TypeArray]\<rparr>"

definition patternMappings :: "patternMapping list" where
  "patternMappings =
     [objectOrString, stringOrBoolean, enabledFields, nullArrayString, nullString,
      nullInteger, configBlocks, numericTypes, stringIntegerBoolean, jsonFields,
      kubernetesFields]"

definition isMatch :: "string \<Rightarrow> string \<Rightarrow> string \<Rightarrow> bool" where
  "isMatch mt pathLower pattern =
     (if mt = ''contains'' then Contains pathLower pattern
      else if mt = ''suffix'' then HasSuffix pathLower pattern
      else if mt = ''exact'' then pathLower = pattern
      else if mt = ''exact-or-suffix''
        then pathLower = pattern \<or> HasSuffix pathLower (''.'' @ pattern)
      else False)"

text \<open>The two nested loops: the first pattern of the first mapping that matches.\<close>

fun matchPatterns :: "string \<Rightarrow> string \<Rightarrow> string list \<Rightarrow> bool" where
  "matchPatterns mt pathLower [] = False"
| "matchPatterns mt pathLower (pattern # ps) =
     (if isMatch mt pathLower pattern then True else matchPatterns mt pathLower ps)"

fun matchMappings :: "string \<Rightarrow> patternMapping list \<Rightarrow> bool \<times> SchemaType list" where
  "matchMappings pathLower [] = (False, [])"
| "matchMappings pathLower (mapping # ms) =
     (if matchPatterns (matchType mapping) pathLower (patterns mapping)
      then (True, types mapping)
      else matchMappings pathLower ms)"

definition shouldSupportMultipleTypes :: "string \<Rightarrow> bool \<times> SchemaType list" where
  "shouldSupportMultipleTypes path = matchMappings (ToLower path) patternMappings"

section \<open>Schemas, options and errors (json_schema.go)\<close>

text \<open>
  The struct \<open>Schema\<close>, with the fields that the generator, the comment extractor, the
  specialiser and the linter read or write. \<open>Properties\<close> is a Go map that may be nil;
  \<open>Items\<close>, \<open>MinItems\<close> and \<open>MaxItems\<close> are pointers; \<open>Default\<close> is an \<open>any\<close>
  (\<open>VNil\<close> is the nil interface); \<open>Examples\<close> is a slice that the linter compares with nil.
\<close>

datatype Schema = Schema
  (SchemaURI: string)
  (Title: string)
  (Description: string)
  (Type: TypeField)
  (Format: string)
  (Properties: "(string \<times> Schema) list option")
  (Required: "string list")
  (Items: "Schema option")
  (MinItems: "int option")
  (MaxItems: "int option")
  (Enum: "any list")
  (Default: any)
  (Examples: "any list option")
  (HelmPath: string)

record GeneratorOptions =
  SchemaVersion :: string
  OptTitle :: string
  OptDescription :: string
  RequireByDefault :: bool
  IncludeExamples :: bool
  ExtractDescriptions :: bool
  UseFullyQualifiedIDs :: bool
  Debug :: bool

text \<open>
  Errors are values. \<open>Wrapped msg e\<close> is \<open>fmt.Errorf(msg + ": %w", e)\<close>. A failed type
  assertion panics; a panic is not caught anywhere, so it passes every \<open>if err != nil\<close>
  unwrapped.
\<close>

datatype Err =
    NonStringKey any
  | RootNotMap any
  | Wrapped string Err
  | Panic string

fun wrapErr :: "string \<Rightarrow> Err \<Rightarrow> Err" where
  "wrapErr msg (Panic p) = Panic p"
| "wrapErr msg e = Wrapped msg e"

text \<open>Assignment \<open>m[k] = v\<close> to a Go map held as an association list.\<close>

fun mapSet :: "'k \<Rightarrow> 'v \<Rightarrow> ('k \<times> 'v) list \<Rightarrow> ('k \<times> 'v) list" where
  "mapSet k v [] = [(k, v)]"
| "mapSet k v ((k', v') # m) = (if k' = k then (k, v) # m else (k', v') # mapSet k v m)"

section \<open>Type inference (type_detection.go, schema_generator.go)\<close>

definition isDate :: "string \<Rightarrow> bool" where
  "isDate s = (length s = 10 \<and> s ! 4 = CHR ''-'' \<and> s ! 7 = CHR ''-'')"

definition isDateTime :: "string \<Rightarrow> bool" where
  "isDateTime s =
     (length s \<ge> 19 \<and> s ! 4 = CHR ''-'' \<and> s ! 7 = CHR ''-'' \<and> s ! 10 = CHR ''T'')"

definition isEmail :: "string \<Rightarrow> bool" where
  "isEmail s = (Contains s ''@'' \<and> Contains s ''.'')"

definition isURI :: "string \<Rightarrow> bool" where
  "isURI s = (HasPrefix s ''http://'' \<or> HasPrefix s ''https://'')"

fun yamlLineLoop :: "string list \<Rightarrow> bool" where
  "yamlLineLoop [] = False"
| "yamlLineLoop (l # ls) =
     (let line = TrimSpace l in
      if line = [] \<or> HasPrefix line ''#'' then yamlLineLoop ls
      else if Contains line '':'' then True
      else yamlLineLoop ls)"

definition isLikelyYAMLOrJSON :: "string \<Rightarrow> bool" where
  "isLikelyYAMLOrJSON s0 =
     (let s = TrimSpace s0 in
      if (HasPrefix s ''{'' \<and> HasSuffix s ''}'') \<or> (HasPrefix s ''['' \<and> HasSuffix s '']'')
      then True
      else yamlLineLoop (scanLines s))"

definition inferFormat :: "string \<Rightarrow> string" where
  "inferFormat strValue =
     (if isDate strValue then ''date''
      else if isDateTime strValue then ''date-time''
      else if isEmail strValue then ''email''
      else if isURI strValue then ''uri''
      else [])"

text \<open>
  \<open>if hasMultipleTypes, types := shouldSupportMultipleTypes(path); hasMultipleTypes {
  schema.Type = types }\<close>, the statement that every case of \<open>inferSchema\<close> ends with.
\<close>

definition applyMultipleTypes :: "string \<Rightarrow> TypeField \<Rightarrow> TypeField" where
  "applyMultipleTypes path ty =
     (case shouldSupportMultipleTypes path of
        (hasMultipleTypes, tys) \<Rightarrow> if hasMultipleTypes then UnionOf tys else ty)"

text \<open>A schema literal that sets the fields \<open>inferSchema\<close> sets, in the struct's order.\<close>

definition newSchema ::
  "TypeField \<Rightarrow> string \<Rightarrow> (string \<times> Schema) list option \<Rightarrow> string list \<Rightarrow> Schema option
     \<Rightarrow> any \<Rightarrow> any list option \<Rightarrow> string \<Rightarrow> Schema" where
  "newSchema ty fmt props req its dflt ex path =
     Schema [] [] [] ty fmt props req its None None [] dflt ex path"

definition keyIndicatesMultiple :: "string \<Rightarrow> bool" where
  "keyIndicatesMultiple k =
     (let kl = ToLower k in
      (HasSuffix kl ''annotations'' \<or> HasSuffix kl ''labels'' \<or> HasSuffix kl ''nodeselector''
       \<or> HasSuffix kl ''affinity'' \<or> HasSuffix kl ''selector'')
      \<or> (HasSuffix kl ''tolerations'' \<or> HasSuffix kl ''volumes'' \<or> HasSuffix kl ''mounts''))"

fun keyHeuristic :: "(string \<times> any) list \<Rightarrow> TypeField \<Rightarrow> TypeField" where
  "keyHeuristic [] ty = ty"
| "keyHeuristic ((k, v) # rest) ty =
     (if keyIndicatesMultiple k then UnionOf [TypeObject, TypeString] else keyHeuristic rest ty)"

definition propertyErr :: "string \<Rightarrow> string" where
  "propertyErr k = ''failed to infer schema for property '' @ [CHR 0x27] @ k @ [CHR 0x27]"

function inferSchema :: "GeneratorOptions \<Rightarrow> any \<Rightarrow> string \<Rightarrow> Err + Schema"
  and inferProperties ::
    "GeneratorOptions \<Rightarrow> string \<Rightarrow> (string \<times> any) list \<Rightarrow> (string \<times> Schema) list
       \<Rightarrow> string list \<Rightarrow> Err + ((string \<times> Schema) list \<times> string list)"
  and InferArrayItemsWithMultipleTypes ::
    "GeneratorOptions \<Rightarrow> any list \<Rightarrow> string \<Rightarrow> Err + Schema"
where
  "inferSchema g VNil path =
     Inr (newSchema (applyMultipleTypes path (Single TypeNull)) [] None [] None VNil None path)"
| "inferSchema g (VBool b) path =
     Inr (newSchema (applyMultipleTypes path (Single TypeBoolean)) [] None [] None
            (if IncludeExamples g then VBool b else VNil) None path)"
| "inferSchema g (VInt i) path =
     Inr (newSchema (applyMultipleTypes path (Single TypeInteger)) [] None [] None VNil
            (if IncludeExamples g then Some [VInt i] else None) path)"
| "inferSchema g (VFloat r) path =
     Inr (newSchema (applyMultipleTypes path (Single TypeNumber)) [] None [] None VNil
            (if IncludeExamples g then Some [VFloat r] else None) path)"
| "inferSchema g (VStr strValue) path =
     (let (ty, fmt) =
            (case shouldSupportMultipleTypes path of
               (hasMultipleTypes, tys) \<Rightarrow>
                 if hasMultipleTypes then (UnionOf tys, [])
                 else if isLikelyYAMLOrJSON strValue then (UnionOf [TypeString, TypeObject], [])
                 else (Single TypeString, inferFormat strValue));
          ty' = (if (path = ''enabled'' \<or> HasSuffix path ''.enabled'') \<and> strValue = ''-''
                 then UnionOf [TypeString, TypeBoolean] else ty)
      in Inr (newSchema ty' fmt None [] None VNil
                (if IncludeExamples g then Some [VStr strValue] else None) path))"
| "inferSchema g (VSlice []) path =
     Inr (newSchema (applyMultipleTypes path (Single TypeArray)) [] None [] None VNil None path)"
| "inferSchema g (VSlice (firstItem # others)) path =
     (if hasMixedTypes (firstItem # others) then
        (case InferArrayItemsWithMultipleTypes g (firstItem # others) path of
           Inl err \<Rightarrow> Inl (wrapErr ''failed to infer schema for mixed type array'' err)
         | Inr mixedSchema \<Rightarrow>
             Inr (newSchema (applyMultipleTypes path (Single TypeArray)) [] None []
                    (Some (newSchema (Type mixedSchema) [] None [] None VNil None []))
                    VNil None path))
      else
        (case inferSchema g firstItem (path @ ''[0]'') of
           Inl err \<Rightarrow> Inl (wrapErr ''failed to infer schema for array item'' err)
         | Inr itemSchema \<Rightarrow>
             Inr (newSchema (applyMultipleTypes path (Single TypeArray)) [] None []
                    (Some itemSchema) VNil None path)))"
| "inferSchema g (VMapStr mapValue) path =
     (case inferProperties g path mapValue [] [] of
        Inl err \<Rightarrow> Inl err
      | Inr (props, required) \<Rightarrow>
          Inr (newSchema (applyMultipleTypes path (keyHeuristic mapValue (Single TypeObject)))
                 [] (Some props) required None VNil None path))"
| "inferSchema g (VMapAny m) path =
     Inl (Panic ''interface conversion: interface {} is map[interface {}]interface {}, not map[string]interface {}'')"
| "inferSchema g (VUint n) path =
     Inr (newSchema NoType [] None [] None VNil None path)"
| "inferProperties g path [] props required = Inr (props, required)"
| "inferProperties g path ((k, v) # rest) props required =
     (case inferSchema g v (path @ ''.'' @ k) of
        Inl err \<Rightarrow> Inl (wrapErr (propertyErr k) err)
      | Inr propSchema \<Rightarrow>
          inferProperties g path rest (mapSet k propSchema props)
            (if RequireByDefault g \<and> v \<noteq> VNil then required @ [k] else required))"
| "InferArrayItemsWithMultipleTypes g items path =
     (if hasMixedTypes items then
        Inr (newSchema (UnionOf (mixedTypeArray items)) [] None [] None VNil None path)
      else (case items of
              firstItem # others \<Rightarrow> inferSchema g firstItem (path @ ''[0]'')
            | [] \<Rightarrow> Inr (newSchema (Single TypeArray) [] None [] None VNil None path)))"
  by pat_completeness auto
termination
  by (relation "measure (\<lambda>x. case x of
        Inl (g, v, path) \<Rightarrow> 2 * size v
      | Inr (Inl (g, path, kvs, props, required)) \<Rightarrow>
          2 * size_list (size_prod (\<lambda>_. 0) size) kvs + 1
      | Inr (Inr (g, its, path)) \<Rightarrow> 2 * size_list size its + 1)") auto

section \<open>The element classes of the specification\<close>

text \<open>
  The specification's reading of the heterogeneity test, in its own words: six classes,
  with integers and floats unified into the class number. It is compared below with
  \<open>kindKey\<close>, the classification that \<open>hasMixedTypes\<close> computes.
\<close>

datatype ElemClass = CNull | CBoolean | CNumber | CString | CObject | CArray

fun specClass :: "any \<Rightarrow> ElemClass" where
  "specClass VNil = CNull"
| "specClass (VBool b) = CBoolean"
| "specClass (VInt i) = CNumber"
| "specClass (VUint n) = CNumber"
| "specClass (VFloat r) = CNumber"
| "specClass (VStr s) = CString"
| "specClass (VSlice xs) = CArray"
| "specClass (VMapAny kvs) = CObject"
| "specClass (VMapStr kvs) = CObject"

definition DefaultOptions :: GeneratorOptions where
  "DefaultOptions = \<lparr>SchemaVersion = ''http://json-schema.org/draft-07/schema#'',
     OptTitle = ''Helm Values Schema'', OptDescription = [], RequireByDefault = False,
     IncludeExamples = True, ExtractDescriptions = True, UseFullyQualifiedIDs = False,
     Debug = False\<rparr>"

text \<open>
  Values in which every map is a \<open>map[string]any\<close>, as \<open>convertYAMLToStringMap\<close> leaves
  them: the values on which the type assertion of \<open>inferSchema\<close> cannot fail.
\<close>

fun stringKeyed :: "any \<Rightarrow> bool"
  and stringKeyedList :: "any list \<Rightarrow> bool"
  and stringKeyedMap :: "(string \<times> any) list \<Rightarrow> bool"
where
  "stringKeyed (VMapAny m) = False"
| "stringKeyed (VMapStr m) = stringKeyedMap m"
| "stringKeyed (VSlice xs) = stringKeyedList xs"
| "stringKeyed VNil = True"
| "stringKeyed (VBool b) = True"
| "stringKeyed (VInt i) = True"
| "stringKeyed (VUint n) = True"
| "stringKeyed (VFloat r) = True"
| "stringKeyed (VStr s) = True"
| "stringKeyedList [] = True"
| "stringKeyedList (x # xs) = (stringKeyed x \<and> stringKeyedList xs)"
| "stringKeyedMap [] = True"
| "stringKeyedMap ((k, v) # m) = (stringKeyed v \<and> stringKeyedMap m)"

definition isUint :: "any \<Rightarrow> bool" where
  "isUint v = (case v of VUint n \<Rightarrow> True | _ \<Rightarrow> False)"

text \<open>The \<open>Type\<close> field of the schema that a call returned, when it returned one.\<close>

definition resultType :: "Err + Schema \<Rightarrow> TypeField option" where
  "resultType r = (case r of Inl err \<Rightarrow> None | Inr schema \<Rightarrow> Some (Type schema))"

section \<open>The comment extractor (extract_comments.go)\<close>

record CommentExtractor =
  comments :: "string \<rightharpoonup> string"
  ExtractorDebug :: bool

definition NewCommentExtractor :: CommentExtractor where
  "NewCommentExtractor = \<lparr>comments = Map.empty, ExtractorDebug = False\<rparr>"

text \<open>
  The local variables of \<open>ExtractFromYAML\<close>, together with the extractor's map. An
  indentation that \<open>indentToPath\<close> does not hold reads as the nil path. The debug flag only
  prints to standard error and is not modelled further.
\<close>

record ExtractState =
  indentToPath :: "nat \<rightharpoonup> string list"
  pendingComments :: string
  topLevelComment :: string
  lineIndents :: "nat list"
  foundFirstKey :: bool
  extracted :: "string \<rightharpoonup> string"

definition initState :: "CommentExtractor \<Rightarrow> ExtractState" where
  "initState e = \<lparr>indentToPath = Map.empty, pendingComments = [], topLevelComment = [],
     lineIndents = [], foundFirstKey = False, extracted = comments e\<rparr>"

definition isBlankLine :: "string \<Rightarrow> bool" where
  "isBlankLine line = (TrimSpace line = [])"

definition isCommentLine :: "string \<Rightarrow> bool" where
  "isCommentLine line = (\<not> isBlankLine line \<and> HasPrefix (TrimSpace line) ''#'')"

definition isKeyLine :: "string \<Rightarrow> bool" where
  "isKeyLine line = (\<not> isBlankLine line \<and> \<not> isCommentLine line \<and> Contains line '':'')"

definition commentText :: "string \<Rightarrow> string" where
  "commentText line =
     TrimPrefix (TrimPrefix (TrimSpace (TrimPrefix (TrimSpace line) ''#'')) ''-- '') ''--''"

definition appendComment :: "string \<Rightarrow> string \<Rightarrow> string" where
  "appendComment buf comment = (if buf = [] then comment else buf @ [NL] @ comment)"

definition keyOf :: "string \<Rightarrow> string" where
  "keyOf line = (case SplitN2 (TrimSpace line) CHR '':'' of
     part0 # _ \<Rightarrow> TrimSpace part0 | [] \<Rightarrow> [])"

text \<open>The backwards search for the nearest shallower indentation: \<open>None\<close> is the \<open>-1\<close>.\<close>

fun parentLevelFrom :: "nat list \<Rightarrow> nat \<Rightarrow> nat option" where
  "parentLevelFrom [] indent = None"
| "parentLevelFrom (lvl # earlier) indent =
     (if lvl < indent then Some lvl else parentLevelFrom earlier indent)"

text \<open>
  The forward search for the line's own indentation: the levels are cut after its first
  occurrence, or the indentation is appended when it does not occur.
\<close>

fun updateIndents :: "nat list \<Rightarrow> nat \<Rightarrow> nat list" where
  "updateIndents [] indent = [indent]"
| "updateIndents (lvl # rest) indent =
     (if lvl = indent then [lvl] else lvl # updateIndents rest indent)"

definition currentPathOf :: "ExtractState \<Rightarrow> string \<Rightarrow> string list" where
  "currentPathOf st line =
     (let indent = length line - length (TrimLeftSpaces line) in
      (case parentLevelFrom (rev (lineIndents st)) indent of
         None \<Rightarrow> []
       | Some parentLevel \<Rightarrow>
           (case indentToPath st parentLevel of None \<Rightarrow> [] | Some p \<Rightarrow> p))
      @ [keyOf line])"

definition keyStep :: "ExtractState \<Rightarrow> string \<Rightarrow> ExtractState" where
  "keyStep st line =
     (let indent = length line - length (TrimLeftSpaces line);
          currentPath = currentPathOf st line;
          pathStr = Join currentPath ''.''
      in st\<lparr>foundFirstKey := True,
            lineIndents := updateIndents (lineIndents st) indent,
            indentToPath := (indentToPath st)(indent \<mapsto> currentPath),
            extracted := (if pendingComments st \<noteq> []
                      then (extracted st)(pathStr \<mapsto> pendingComments st) else extracted st),
            pendingComments := []\<rparr>)"

definition commentStep :: "ExtractState \<Rightarrow> string \<Rightarrow> ExtractState" where
  "commentStep st line =
     (let comment = commentText line in
      st\<lparr>topLevelComment :=
             (if \<not> foundFirstKey st then appendComment (topLevelComment st) comment
              else topLevelComment st),
          pendingComments := appendComment (pendingComments st) comment\<rparr>)"

text \<open>One turn of the scanning loop.\<close>

definition lineStep :: "ExtractState \<Rightarrow> string \<Rightarrow> ExtractState" where
  "lineStep st line =
     (if TrimSpace line = [] then st
      else if HasPrefix (TrimSpace line) ''#'' then commentStep st line
      else if Contains line '':'' then keyStep st line
      else st)"

fun extractLoop :: "ExtractState \<Rightarrow> string list \<Rightarrow> ExtractState" where
  "extractLoop st [] = st"
| "extractLoop st (line # rest) = extractLoop (lineStep st line) rest"

definition storeTopLevel :: "ExtractState \<Rightarrow> string \<rightharpoonup> string" where
  "storeTopLevel st =
     (if topLevelComment st \<noteq> [] then (extracted st)([] \<mapsto> topLevelComment st) else extracted st)"

definition ExtractFromYAML :: "CommentExtractor \<Rightarrow> string \<Rightarrow> CommentExtractor" where
  "ExtractFromYAML e yamlData =
     e\<lparr>comments := storeTopLevel (extractLoop (initState e) (scanLines yamlData))\<rparr>"

definition GetComment :: "CommentExtractor \<Rightarrow> string \<Rightarrow> string" where
  "GetComment e path = (case comments e path of None \<Rightarrow> [] | Some c \<Rightarrow> c)"

text \<open>A text given by its lines, each ended by a newline.\<close>

definition unlines :: "string list \<Rightarrow> string" where
  "unlines ls = concat (map (\<lambda>l. l @ [NL]) ls)"

text \<open>
  The paths that the loop assigns a comment to while it scans \<open>ls\<close> from the state
  \<open>st\<close>: one for every key line that finds the pending buffer non-empty.
\<close>

fun assignedPaths :: "ExtractState \<Rightarrow> string list \<Rightarrow> string list" where
  "assignedPaths st [] = []"
| "assignedPaths st (line # rest) =
     (if isKeyLine line \<and> pendingComments st \<noteq> []
      then [Join (currentPathOf st line) ''.''] else [])
     @ assignedPaths (lineStep st line) rest"

definition scanState :: "string list \<Rightarrow> ExtractState" where
  \<comment> \<open>the state of a fresh extractor's loop after the lines \<open>ls\<close>\<close>
  "scanState ls = extractLoop (initState NewCommentExtractor) ls"

definition testDocument :: string where
  \<comment> \<open>the document of \<open>TestCommentExtraction\<close> (extract_comments_test.go)\<close>
  "testDocument = unlines
     [''# Top level comment'',
      ''# that spans multiple lines'',
      '''',
      ''# -- This is a special helm-style comment'',
      '''',
      ''key1: value1  # This is an inline comment that should be ignored'',
      '''',
      ''# Comment for key2'',
      ''key2: value2'',
      '''',
      ''# Multi-line comment for key3'',
      ''# with additional details'',
      ''key3:'',
      ''  # Comment for nested1'',
      ''  nested1: value3'',
      ''  # Comment for nested2'',
      ''  nested2: value4'',
      '''',
      ''# Comment for key4 with special -- format'',
      ''# -- This includes Helm-style comments'',
      ''key4: value5'',
      '''',
      ''myObject:'',
      ''  # -- First Helm comment'',
      ''  # -- Second line of the comment'',
      ''  property1: value'',
      ''  '',
      ''  # Regular comment line'',
      ''  # Second line'',
      ''  property2: value'']"

text \<open>
  \<open>ApplyCommentsToSchema\<close> changes the tree in place; the model returns the changed tree.
  The schema pointers of a tree are never nil.
\<close>

function ApplyCommentsToSchema :: "CommentExtractor \<Rightarrow> Schema \<Rightarrow> Schema"
  and applyToProperties ::
    "CommentExtractor \<Rightarrow> (string \<times> Schema) list \<Rightarrow> (string \<times> Schema) list"
where
  "ApplyCommentsToSchema e (Schema uri title desc ty fmt props req its mn mx en dflt ex path) =
     Schema uri title
       (case comments e path of
          Some comment \<Rightarrow> if desc = [] then comment else desc
        | None \<Rightarrow> desc)
       ty fmt
       (case props of None \<Rightarrow> None | Some ps \<Rightarrow> Some (applyToProperties e ps))
       req
       (case its of None \<Rightarrow> None | Some item \<Rightarrow> Some (ApplyCommentsToSchema e item))
       mn mx en dflt ex path"
| "applyToProperties e [] = []"
| "applyToProperties e ((k, propSchema) # rest) =
     (k, ApplyCommentsToSchema e propSchema) # applyToProperties e rest"
  by pat_completeness auto
termination
  by (relation "measure (\<lambda>x. case x of
        Inl (e, s) \<Rightarrow> 2 * size s
      | Inr (e, ps) \<Rightarrow> 2 * size_list (size_prod (\<lambda>_. 0) size) ps + 1)") auto

section \<open>The generator's entry points (schema_generator.go)\<close>

fun generateLoop ::
  "GeneratorOptions \<Rightarrow> (string \<times> any) list \<Rightarrow> (string \<times> Schema) list \<Rightarrow> string list
     \<Rightarrow> Err + ((string \<times> Schema) list \<times> string list)" where
  "generateLoop g [] props required = Inr (props, required)"
| "generateLoop g ((key, v) # rest) props required =
     (case inferSchema g v key of
        Inl err \<Rightarrow> Inl (wrapErr (propertyErr key) err)
      | Inr propSchema \<Rightarrow>
          generateLoop g rest (mapSet key propSchema props)
            (if RequireByDefault g \<and> v \<noteq> VNil then required @ [key] else required))"

definition GenerateFromMap :: "GeneratorOptions \<Rightarrow> (string \<times> any) list \<Rightarrow> Err + Schema" where
  "GenerateFromMap g dataMap =
     (case generateLoop g dataMap [] [] of
        Inl err \<Rightarrow> Inl err
      | Inr (props, required) \<Rightarrow>
          Inr (Schema (SchemaVersion g) (OptTitle g) (OptDescription g) (Single TypeObject) []
                 (Some props) required None None None [] VNil None []))"

function convertYAMLToStringMap :: "any \<Rightarrow> Err + any"
  and convertMapLoop :: "(any \<times> any) list \<Rightarrow> (string \<times> any) list \<Rightarrow> Err + (string \<times> any) list"
  and convertSliceLoop :: "any list \<Rightarrow> Err + any list"
where
  "convertYAMLToStringMap (VMapAny x) =
     (case convertMapLoop x [] of Inl err \<Rightarrow> Inl err | Inr m \<Rightarrow> Inr (VMapStr m))"
| "convertYAMLToStringMap (VSlice x) =
     (case convertSliceLoop x of Inl err \<Rightarrow> Inl err | Inr x' \<Rightarrow> Inr (VSlice x'))"
| "convertYAMLToStringMap VNil = Inr VNil"
| "convertYAMLToStringMap (VBool b) = Inr (VBool b)"
| "convertYAMLToStringMap (VInt i) = Inr (VInt i)"
| "convertYAMLToStringMap (VUint n) = Inr (VUint n)"
| "convertYAMLToStringMap (VFloat r) = Inr (VFloat r)"
| "convertYAMLToStringMap (VStr s) = Inr (VStr s)"
| "convertYAMLToStringMap (VMapStr m) = Inr (VMapStr m)"
| "convertMapLoop [] m = Inr m"
| "convertMapLoop ((k, v) # rest) m =
     (case k of
        VStr str \<Rightarrow>
          (case convertYAMLToStringMap v of
             Inl err \<Rightarrow> Inl err
           | Inr converted \<Rightarrow> convertMapLoop rest (mapSet str converted m))
      | _ \<Rightarrow> Inl (NonStringKey k))"
| "convertSliceLoop [] = Inr []"
| "convertSliceLoop (v # rest) =
     (case convertYAMLToStringMap v of
        Inl err \<Rightarrow> Inl err
      | Inr converted \<Rightarrow>
          (case convertSliceLoop rest of
             Inl err \<Rightarrow> Inl err
           | Inr rest' \<Rightarrow> Inr (converted # rest')))"
  by pat_completeness auto
termination
  by (relation "measure (\<lambda>x. case x of
        Inl v \<Rightarrow> 2 * size v
      | Inr (Inl (kvs, m)) \<Rightarrow> 2 * size_list (size_prod size size) kvs + 1
      | Inr (Inr vs) \<Rightarrow> 2 * size_list size vs + 1)") auto

fun withDescription :: "string \<Rightarrow> Schema \<Rightarrow> Schema" where
  "withDescription d (Schema uri title desc ty fmt props req its mn mx en dflt ex path) =
     Schema uri title d ty fmt props req its mn mx en dflt ex path"

text \<open>
  \<open>GenerateFromYAML\<close>. The YAML decoder is an external library: the value it decoded
  from \<open>yamlData\<close> is the argument \<open>data\<close> (a document that does not parse never gets
  this far).
\<close>

definition describe :: "GeneratorOptions \<Rightarrow> string \<Rightarrow> Schema \<Rightarrow> Schema" where
  "describe g yamlData schema =
     (let commentExtractor =
            ExtractFromYAML (NewCommentExtractor\<lparr>ExtractorDebug := Debug g\<rparr>) yamlData;
          topComment = GetComment commentExtractor [];
          schema' = (if topComment \<noteq> [] \<and> Description schema = []
                     then withDescription topComment schema else schema)
      in ApplyCommentsToSchema commentExtractor schema')"

definition GenerateFromYAML :: "GeneratorOptions \<Rightarrow> any \<Rightarrow> string \<Rightarrow> Err + Schema" where
  "GenerateFromYAML g data yamlData =
     (case convertYAMLToStringMap data of
        Inl err \<Rightarrow> Inl (wrapErr ''failed to convert YAML'' err)
      | Inr mappedData \<Rightarrow>
          (case mappedData of
             VMapStr dataMap \<Rightarrow>
               (case GenerateFromMap g dataMap of
                  Inl err \<Rightarrow> Inl (wrapErr ''failed to generate schema'' err)
                | Inr schema \<Rightarrow>
                    Inr (if ExtractDescriptions g then describe g yamlData schema else schema))
           | _ \<Rightarrow> Inl (RootNotMap mappedData)))"

text \<open>Example inputs: the end-to-end document of the specification, and a document with a dotted key.\<close>

definition smallDocument :: string where
  "smallDocument = unlines [''# Test values'', ''key1: value1'', ''key2: 42'']"

definition smallData :: any where
  \<comment> \<open>what the YAML decoder returns for \<open>smallDocument\<close>\<close>
  "smallData = VMapAny [(VStr ''key1'', VStr ''value1''), (VStr ''key2'', VInt 42)]"

definition smallSchema :: Schema where
  "smallSchema =
     Schema ''http://json-schema.org/draft-07/schema#'' ''Helm Values Schema'' ''Test values''
       (Single TypeObject) []
       (Some [(''key1'', Schema [] [] ''Test values'' (Single TypeString) [] None [] None None
                 None [] VNil (Some [VStr ''value1'']) ''key1''),
              (''key2'', Schema [] [] [] (Single TypeInteger) [] None [] None None
                 None [] VNil (Some [VInt 42]) ''key2'')])
       [] None None None [] VNil None []"

definition dottedDocument :: string where
  "dottedDocument = unlines [''# Top'', ''x.y: 1'', ''x:'', ''  # B'', ''  y: 2'']"

text \<open>
  A key that is not a string, anywhere in a decoded value: in a \<open>map[any]any\<close>, or in a
  value of one, or in an element of a slice (the places \<open>convertYAMLToStringMap\<close> visits).
\<close>

definition isStr :: "any \<Rightarrow> bool" where
  "isStr v = (case v of VStr s \<Rightarrow> True | _ \<Rightarrow> False)"

fun hasNonStringKey :: "any \<Rightarrow> bool"
  and nonStringKeyInMap :: "(any \<times> any) list \<Rightarrow> bool"
  and nonStringKeyInSlice :: "any list \<Rightarrow> bool"
where
  "hasNonStringKey (VMapAny m) = nonStringKeyInMap m"
| "hasNonStringKey (VSlice xs) = nonStringKeyInSlice xs"
| "hasNonStringKey VNil = False"
| "hasNonStringKey (VBool b) = False"
| "hasNonStringKey (VInt i) = False"
| "hasNonStringKey (VUint n) = False"
| "hasNonStringKey (VFloat r) = False"
| "hasNonStringKey (VStr s) = False"
| "hasNonStringKey (VMapStr m) = False"
| "nonStringKeyInMap [] = False"
| "nonStringKeyInMap ((k, v) # rest) =
     (\<not> isStr k \<or> hasNonStringKey v \<or> nonStringKeyInMap rest)"
| "nonStringKeyInSlice [] = False"
| "nonStringKeyInSlice (v # rest) = (hasNonStringKey v \<or> nonStringKeyInSlice rest)"

definition isMapping :: "any \<Rightarrow> bool" where
  "isMapping v = (case v of VMapAny m \<Rightarrow> True | VMapStr m \<Rightarrow> True | _ \<Rightarrow> False)"

section \<open>The best-practices linter (helm_best_practices.go)\<close>

datatype ValidationLevel = Error | Warning | Info

record ValidationIssue =
  Path :: string
  Message :: string
  Level :: ValidationLevel

definition MaxNestingDepth :: nat where
  "MaxNestingDepth = 5"

fun typeInList :: "SchemaType \<Rightarrow> SchemaType list \<Rightarrow> bool" where
  "typeInList typeToFind [] = False"
| "typeInList typeToFind (t # ts) = (if t = typeToFind then True else typeInList typeToFind ts)"

definition isTypeInArray :: "SchemaType \<Rightarrow> TypeField \<Rightarrow> bool" where
  "isTypeInArray typeToFind tys =
     (case tys of UnionOf typesVal \<Rightarrow> typeInList typeToFind typesVal | _ \<Rightarrow> False)"

definition isArrayTyped :: "Schema \<Rightarrow> bool" where
  \<comment> \<open>\<open>schema.Type == TypeArray || (schema.Type != nil && isTypeInArray(TypeArray, schema.Type))\<close>\<close>
  "isArrayTyped schema =
     (Type schema = Single TypeArray
      \<or> (Type schema \<noteq> NoType \<and> isTypeInArray TypeArray (Type schema)))"

text \<open>
  The checks append to the slice \<open>issues\<close>; the model passes it through. Only
  \<open>checkNamingConventions\<close> can fail: \<open>propName[:1]\<close> panics for the empty name, and
  \<open>None\<close> is that panic.
\<close>

definition namingIssues :: "string \<Rightarrow> string \<Rightarrow> ValidationIssue list" where
  "namingIssues path propName =
     (if ToLower (take 1 propName) \<noteq> take 1 propName
      then [\<lparr>Path = path @ ''.'' @ propName,
             Message = ''Property names should follow camelCase convention'',
             Level = Warning\<rparr>]
      else [])
     @ (if Contains propName ''-'' \<or> Contains propName ''_''
        then [\<lparr>Path = path @ ''.'' @ propName,
               Message = ''Property names should not contain hyphens or underscores'',
               Level = Error\<rparr>]
        else [])"

fun namingLoop ::
  "string \<Rightarrow> (string \<times> Schema) list \<Rightarrow> ValidationIssue list \<Rightarrow> ValidationIssue list option"
where
  "namingLoop path [] issues = Some issues"
| "namingLoop path ((propName, propSchema) # rest) issues =
     (if length propName < 1 then None
      else namingLoop path rest (issues @ namingIssues path propName))"

definition checkNamingConventions ::
  "Schema \<Rightarrow> string \<Rightarrow> ValidationIssue list \<Rightarrow> ValidationIssue list option" where
  "checkNamingConventions schema path issues =
     (case Properties schema of
        None \<Rightarrow> Some issues
      | Some props \<Rightarrow> if path = [] then Some issues else namingLoop path props issues)"

function showNat :: "nat \<Rightarrow> string" where
  "showNat n =
     (if n < 10 then [''0123456789'' ! n] else showNat (n div 10) @ [''0123456789'' ! (n mod 10)])"
  by pat_completeness auto
termination
  by (relation "measure id") auto

declare showNat.simps [simp del]

definition checkNestingDepth ::
  "nat \<Rightarrow> string \<Rightarrow> ValidationIssue list \<Rightarrow> ValidationIssue list" where
  "checkNestingDepth depth path issues =
     (if depth > MaxNestingDepth
      then issues @ [\<lparr>Path = path,
             Message = ''Excessive nesting depth ('' @ showNat depth
               @ '' levels). Consider flattening the structure or using dot notation for paths.'',
             Level = Warning\<rparr>]
      else issues)"

definition itemsIssue :: "string \<Rightarrow> ValidationIssue" where
  "itemsIssue path = \<lparr>Path = path,
     Message = ''Array should define an items schema for validation'', Level = Warning\<rparr>"

definition constraintsIssue :: "string \<Rightarrow> ValidationIssue" where
  "constraintsIssue path = \<lparr>Path = path,
     Message = ''Consider adding minItems/maxItems constraints for this array'', Level = Info\<rparr>"

definition checkArrayStructures ::
  "Schema \<Rightarrow> string \<Rightarrow> ValidationIssue list \<Rightarrow> ValidationIssue list" where
  "checkArrayStructures schema path issues =
     (if isArrayTyped schema then
        (let issues1 = (if Items schema = None then issues @ [itemsIssue path] else issues) in
         if path \<noteq> [] \<and> (Contains path ''secret'' \<or> Contains path ''config''
              \<or> Contains path ''certificate'')
         then (if MinItems schema = None \<and> MaxItems schema = None
               then issues1 @ [constraintsIssue path] else issues1)
         else issues1)
      else issues)"

definition Count :: "string \<Rightarrow> char \<Rightarrow> nat" where
  \<comment> \<open>\<open>strings.Count\<close> for a one-byte substring\<close>
  "Count s c = length (filter (\<lambda>x. x = c) s)"

definition checkDocumentation ::
  "Schema \<Rightarrow> string \<Rightarrow> ValidationIssue list \<Rightarrow> ValidationIssue list" where
  "checkDocumentation schema path issues =
     (if path = [] then issues
      else
        (let issues1 =
               (if Description schema = []
                then issues @ [\<lparr>Path = path, Message = ''Property should have a description'',
                       Level = (if Count path CHR ''.'' \<le> 1 then Warning else Info)\<rparr>]
                else issues);
             isLeaf = (case Properties schema of None \<Rightarrow> True | Some props \<Rightarrow> length props = 0)
         in if isLeaf \<and> Examples schema = None \<and> Default schema = VNil
               \<and> Type schema \<noteq> Single TypeObject \<and> Type schema \<noteq> Single TypeArray
            then issues1 @ [\<lparr>Path = path,
                   Message = ''Consider adding examples or default value'', Level = Info\<rparr>]
            else issues1))"

function validateSchema ::
    "Schema \<Rightarrow> string \<Rightarrow> nat \<Rightarrow> ValidationIssue list \<Rightarrow> ValidationIssue list option"
  and validateProperties ::
    "(string \<times> Schema) list \<Rightarrow> string \<Rightarrow> nat \<Rightarrow> ValidationIssue list
       \<Rightarrow> ValidationIssue list option"
where
  "validateSchema schema path depth issues =
     (case checkNamingConventions schema path issues of
        None \<Rightarrow> None
      | Some issues1 \<Rightarrow>
          (let issues4 = checkDocumentation schema path
                 (checkArrayStructures schema path (checkNestingDepth depth path issues1)) in
           (case (case Properties schema of
                    None \<Rightarrow> Some issues4
                  | Some props \<Rightarrow> validateProperties props path depth issues4) of
              None \<Rightarrow> None
            | Some issues5 \<Rightarrow>
                (if isArrayTyped schema then
                   (case Items schema of
                      None \<Rightarrow> Some issues5
                    | Some item \<Rightarrow> validateSchema item (path @ ''[]'') (depth + 1) issues5)
                 else Some issues5))))"
| "validateProperties [] path depth issues = Some issues"
| "validateProperties ((propName, propSchema) # rest) path depth issues =
     (case validateSchema propSchema
             (if path = [] then propName else path @ ''.'' @ propName) (depth + 1) issues of
        None \<Rightarrow> None
      | Some issues' \<Rightarrow> validateProperties rest path depth issues')"
  by pat_completeness auto
termination
  apply (relation "measure (\<lambda>x. case x of
        Inl (s, path, depth, issues) \<Rightarrow> 2 * size s
      | Inr (ps, path, depth, issues) \<Rightarrow> 2 * size_list (size_prod (\<lambda>_. 0) size) ps + 1)")
    apply auto
  subgoal for schema by (cases schema) auto
  subgoal for schema by (cases schema) auto
  done

declare validateSchema.simps(1) [simp del]

definition ValidateHelmBestPractices :: "Schema \<Rightarrow> ValidationIssue list option" where
  "ValidateHelmBestPractices schema = validateSchema schema [] 0 []"

text \<open>
  The calls of \<open>validateSchema\<close>, in order: every node the linter visits, with the path it
  is visited at. The children of a node are its properties and, when its type includes
  array, its items.
\<close>

definition itemsToVisit :: "Schema \<Rightarrow> Schema option" where
  "itemsToVisit schema = (if isArrayTyped schema then Items schema else None)"

function visitedNodes :: "Schema \<Rightarrow> string \<Rightarrow> (string \<times> Schema) list"
  and visitedProperties :: "(string \<times> Schema) list \<Rightarrow> string \<Rightarrow> (string \<times> Schema) list"
where
  "visitedNodes schema path =
     (path, schema)
     # (case Properties schema of None \<Rightarrow> [] | Some props \<Rightarrow> visitedProperties props path)
     @ (case itemsToVisit schema of
          None \<Rightarrow> []
        | Some item \<Rightarrow> visitedNodes item (path @ ''[]''))"
| "visitedProperties [] path = []"
| "visitedProperties ((propName, propSchema) # rest) path =
     visitedNodes propSchema (if path = [] then propName else path @ ''.'' @ propName)
     @ visitedProperties rest path"
  by pat_completeness auto
termination
  apply (relation "measure (\<lambda>x. case x of
        Inl (s, path) \<Rightarrow> 2 * size s
      | Inr (ps, path) \<Rightarrow> 2 * size_list (size_prod (\<lambda>_. 0) size) ps + 1)")
    apply (auto simp: itemsToVisit_def split: if_splits)
  subgoal for schema by (cases schema) auto
  subgoal for schema by (cases schema) auto
  done

declare visitedNodes.simps(1) [simp del]

definition hasEmptyName :: "Schema \<Rightarrow> bool" where
  "hasEmptyName schema =
     (case Properties schema of None \<Rightarrow> False | Some props \<Rightarrow> [] \<in> fst ` set props)"

text \<open>Example trees for the linter.\<close>

definition leafSchema :: "TypeField \<Rightarrow> Schema" where
  "leafSchema ty = Schema [] [] [] ty [] None [] None None None [] VNil None []"

definition stringArray :: Schema where
  \<comment> \<open>an array of strings, without element-count constraints\<close>
  "stringArray =
     Schema [] [] [] (Single TypeArray) [] None []
       (Some (leafSchema (Single TypeString))) None None [] VNil None []"

definition secretsTree :: Schema where
  \<comment> \<open>a root object whose property \<open>mySecrets\<close> is an array of strings\<close>
  "secretsTree =
     Schema [] [] [] (Single TypeObject) []
       (Some [(''mySecrets'', stringArray)]) [] None None None [] VNil None []"

definition certificatesTree :: Schema where
  \<comment> \<open>the same with the property name \<open>certificates\<close>\<close>
  "certificatesTree =
     Schema [] [] [] (Single TypeObject) []
       (Some [(''certificates'', stringArray)]) [] None None None [] VNil None []"

definition describedSchema :: Schema where
  \<comment> \<open>generated from \<open>key1: value1\<close> under the comment \<open>Test values\<close>, with the root
     description \<open>My chart\<close> configured\<close>
  "describedSchema =
     Schema ''http://json-schema.org/draft-07/schema#'' ''Helm Values Schema'' ''My chart''
       (Single TypeObject) []
       (Some [(''key1'', Schema [] [] ''Test values'' (Single TypeString) [] None [] None None
                 None [] VNil (Some [VStr ''value1'']) ''key1'')])
       [] None None None [] VNil None []"

definition emptyNameTree :: Schema where
  \<comment> \<open>a root object whose property \<open>server\<close> is an object with a property named \<open>""\<close>\<close>
  "emptyNameTree =
     Schema [] [] [] (Single TypeObject) []
       (Some [(''server'',
               Schema [] [] [] (Single TypeObject) []
                 (Some [([], leafSchema (Single TypeString))]) [] None None None [] VNil None [])])
       [] None None None [] VNil None []"

definition annotationsData :: any where
  \<comment> \<open>decoded from \<open>podAnnotations: [{"": 1}]\<close>\<close>
  "annotationsData = VMapAny [(VStr ''podAnnotations'', VSlice [VMapAny [(VStr [], VInt 1)]])]"

definition annotationsSchema :: Schema where
  \<comment> \<open>the schema generated for \<open>annotationsData\<close>\<close>
  "annotationsSchema =
     Schema ''http://json-schema.org/draft-07/schema#'' ''Helm Values Schema'' []
       (Single TypeObject) []
       (Some [(''podAnnotations'',
               Schema [] [] [] (UnionOf [TypeObject, TypeString]) [] None []
                 (Some (Schema [] [] [] (UnionOf [TypeObject, TypeString]) []
                          (Some [([], Schema [] [] [] (UnionOf [TypeObject, TypeString]) []
                                        None [] None None None [] VNil (Some [VInt 1])
                                        ''podAnnotations[0].'')])
                          [] None None None [] VNil None ''podAnnotations[0]''))
                 None None [] VNil None ''podAnnotations'')])
       [] None None None [] VNil None []"

definition propertyOf :: "Schema \<Rightarrow> string \<Rightarrow> Schema option" where
  \<comment> \<open>\<open>schema.Properties[name]\<close>, when it is there\<close>
  "propertyOf schema name =
     (case Properties schema of None \<Rightarrow> None | Some props \<Rightarrow> map_of props name)"

definition itemsUnder :: "Schema \<Rightarrow> string \<Rightarrow> Schema option" where
  \<comment> \<open>the items node of the property \<open>name\<close> of a schema\<close>
  "itemsUnder schema name =
     (case Properties schema of
        None \<Rightarrow> None
      | Some props \<Rightarrow> (case map_of props name of None \<Rightarrow> None | Some node \<Rightarrow> Items node))"

text \<open>
  A visited node that makes the naming check fail, and a visited node for which the array
  check suggests element-count constraints.
\<close>

definition badNode :: "string \<times> Schema \<Rightarrow> bool" where
  "badNode pn = (fst pn \<noteq> [] \<and> hasEmptyName (snd pn))"

definition needsConstraints :: "string \<times> Schema \<Rightarrow> bool" where
  "needsConstraints pn =
     (isArrayTyped (snd pn)
      \<and> (Contains (fst pn) ''secret'' \<or> Contains (fst pn) ''config''
           \<or> Contains (fst pn) ''certificate'')
      \<and> MinItems (snd pn) = None \<and> MaxItems (snd pn) = None)"

section \<open>Named shapes (json-schema-generator/generate.go)\<close>

text \<open>
  \<open>SpecializeSchemaForHelm\<close> belongs to the older package, whose declaration of the struct
  \<open>Schema\<close> is not among the sources; the struct of the newer package is used for it. The
  function changes the tree in place and returns it; the model returns the changed tree.
\<close>

fun imageKeys :: "(string \<times> Schema) list \<Rightarrow> bool \<times> bool \<Rightarrow> bool \<times> bool" where
  "imageKeys [] (hasRepository, hasTag) = (hasRepository, hasTag)"
| "imageKeys ((key, s) # rest) (hasRepository, hasTag) =
     imageKeys rest
       (if key = ''repository'' then (True, hasTag)
        else if key = ''tag'' then (hasRepository, True)
        else (hasRepository, hasTag))"

definition isImageConfig :: "Schema \<Rightarrow> bool" where
  "isImageConfig schema =
     (case Properties schema of
        None \<Rightarrow> False
      | Some props \<Rightarrow>
          if Type schema \<noteq> Single TypeObject then False
          else (case imageKeys props (False, False) of
                  (hasRepository, hasTag) \<Rightarrow> hasRepository \<and> hasTag))"

definition createImageSchema :: "string \<Rightarrow> Schema" where
  "createImageSchema path =
     Schema [] [] ''Container image configuration'' (Single TypeObject) []
       (Some [(''repository'',
               Schema [] [] ''Container image repository'' (Single TypeString) [] None []
                 None None None [] VNil None []),
              (''tag'',
               Schema [] [] ''Container image tag'' (Single TypeString) [] None []
                 None None None [] (VStr ''latest'') None []),
              (''pullPolicy'',
               Schema [] [] ''Image pull policy'' (Single TypeString) [] None []
                 None None None [VStr ''Always'', VStr ''IfNotPresent'', VStr ''Never'']
                 (VStr ''IfNotPresent'') None [])])
       [''repository''] None None None [] VNil None path"

fun resourceKeys :: "(string \<times> Schema) list \<Rightarrow> bool \<times> bool \<Rightarrow> bool \<times> bool" where
  "resourceKeys [] (hasLimits, hasRequests) = (hasLimits, hasRequests)"
| "resourceKeys ((key, s) # rest) (hasLimits, hasRequests) =
     resourceKeys rest
       (if key = ''limits'' then (True, hasRequests)
        else if key = ''requests'' then (hasLimits, True)
        else (hasLimits, hasRequests))"

definition isResourcesConfig :: "Schema \<Rightarrow> bool" where
  "isResourcesConfig schema =
     (case Properties schema of
        None \<Rightarrow> False
      | Some props \<Rightarrow>
          if Type schema \<noteq> Single TypeObject then False
          else (case resourceKeys props (False, False) of
                  (hasLimits, hasRequests) \<Rightarrow> hasLimits \<or> hasRequests))"

definition resourceQuantity :: "string \<Rightarrow> string \<Rightarrow> string \<Rightarrow> Schema" where
  "resourceQuantity description example1 example2 =
     Schema [] [] description (Single TypeString) [] None [] None None None [] VNil
       (Some [VStr example1, VStr example2]) []"

definition createResourcesSchema :: "string \<Rightarrow> Schema" where
  "createResourcesSchema path =
     Schema [] [] ''CPU/Memory resource requirements'' (Single TypeObject) []
       (Some [(''limits'',
               Schema [] [] ''Resource limits'' (Single TypeObject) []
                 (Some [(''cpu'', resourceQuantity ''CPU limit'' ''100m'' ''0.1''),
                        (''memory'', resourceQuantity ''Memory limit'' ''128Mi'' ''1Gi'')])
                 [] None None None [] VNil None []),
              (''requests'',
               Schema [] [] ''Resource requests'' (Single TypeObject) []
                 (Some [(''cpu'', resourceQuantity ''CPU request'' ''100m'' ''0.1''),
                        (''memory'', resourceQuantity ''Memory request'' ''128Mi'' ''1Gi'')])
                 [] None None None [] VNil None [])])
       [] None None None [] VNil None path"

function SpecializeSchemaForHelm :: "Schema \<Rightarrow> Schema"
  and specializeProperties :: "(string \<times> Schema) list \<Rightarrow> (string \<times> Schema) list"
where
  "SpecializeSchemaForHelm (Schema uri title desc ty fmt props req its mn mx en dflt ex path) =
     (if isImageConfig (Schema uri title desc ty fmt props req its mn mx en dflt ex path)
      then createImageSchema path
      else if isResourcesConfig (Schema uri title desc ty fmt props req its mn mx en dflt ex path)
      then createResourcesSchema path
      else
        Schema uri title desc ty fmt
          (if ty = Single TypeObject
           then (case props of None \<Rightarrow> None | Some ps \<Rightarrow> Some (specializeProperties ps))
           else props)
          req
          (if ty = Single TypeArray
           then (case its of None \<Rightarrow> None | Some item \<Rightarrow> Some (SpecializeSchemaForHelm item))
           else its)
          mn mx en dflt ex path)"
| "specializeProperties [] = []"
| "specializeProperties ((key, propSchema) # rest) =
     (key, SpecializeSchemaForHelm propSchema) # specializeProperties rest"
  by pat_completeness auto
termination
  by (relation "measure (\<lambda>x. case x of
        Inl s \<Rightarrow> 2 * size s
      | Inr ps \<Rightarrow> 2 * size_list (size_prod (\<lambda>_. 0) size) ps + 1)") auto

text \<open>Every node of a tree: the node, the nodes of its properties, the nodes of its items.\<close>

function allNodes :: "Schema \<Rightarrow> Schema list"
  and allNodesOf :: "(string \<times> Schema) list \<Rightarrow> Schema list"
where
  "allNodes (Schema uri title desc ty fmt props req its mn mx en dflt ex path) =
     Schema uri title desc ty fmt props req its mn mx en dflt ex path
     # (case props of None \<Rightarrow> [] | Some ps \<Rightarrow> allNodesOf ps)
     @ (case its of None \<Rightarrow> [] | Some item \<Rightarrow> allNodes item)"
| "allNodesOf [] = []"
| "allNodesOf ((key, propSchema) # rest) = allNodes propSchema @ allNodesOf rest"
  by pat_completeness auto
termination
  by (relation "measure (\<lambda>x. case x of
        Inl s \<Rightarrow> 2 * size s
      | Inr ps \<Rightarrow> 2 * size_list (size_prod (\<lambda>_. 0) size) ps + 1)") auto

text \<open>
  A node as the older package's \<open>inferSchema\<close> builds it: properties on an object only,
  items on an array only. And a node that is the canonical fragment whenever it has a named
  shape.
\<close>

definition nodeShaped :: "Schema \<Rightarrow> bool" where
  "nodeShaped n =
     ((Properties n = None \<or> Type n = Single TypeObject)
      \<and> (Items n = None \<or> Type n = Single TypeArray))"

definition canonicalNode :: "Schema \<Rightarrow> bool" where
  "canonicalNode n =
     (if isImageConfig n then n = createImageSchema (HelmPath n)
      else if isResourcesConfig n then n = createResourcesSchema (HelmPath n)
      else True)"

definition objectNode :: "(string \<times> Schema) list \<Rightarrow> string \<Rightarrow> Schema" where
  "objectNode props path =
     Schema [] [] [] (Single TypeObject) [] (Some props) [] None None None [] VNil None path"

definition stringNode :: "string \<Rightarrow> Schema" where
  "stringNode path =
     Schema [] [] [] (Single TypeString) [] None [] None None None [] VNil None path"

definition chartTree :: Schema where
  \<comment> \<open>\<open>image: {repository, tag}\<close> and \<open>resources: {limits: {cpu}}\<close> under the root\<close>
  "chartTree =
     objectNode
       [(''image'', objectNode [(''repository'', stringNode ''image.repository''),
                                (''tag'', stringNode ''image.tag'')] ''image''),
        (''resources'',
           objectNode [(''limits'', objectNode [(''cpu'', stringNode ''resources.limits.cpu'')]
                                      ''resources.limits'')] ''resources'')] []"

definition nestedTree :: Schema where
  \<comment> \<open>an image shape that holds a resources shape: \<open>{repository, tag, resources: {limits}}\<close>\<close>
  "nestedTree =
     objectNode
       [(''repository'', stringNode ''repository''),
        (''tag'', stringNode ''tag''),
        (''resources'',
           objectNode [(''limits'', objectNode [(''cpu'', stringNode ''resources.limits.cpu'')]
                                      ''resources.limits'')] ''resources'')] []"

section \<open>Properties\<close>

subsection \<open>Heterogeneous sequences\<close>

lemma mixedLoop_card:
  "distinct found \<Longrightarrow> mixedLoop xs found \<longleftrightarrow> 1 < card (set found \<union> kindKey ` set xs)"
proof (induction xs arbitrary: found)
  case Nil
  then show ?case by (simp add: distinct_card)
next
  case (Cons item rest)
  let ?found' = "List.insert (kindKey item) found"
  have d: "distinct ?found'" using Cons.prems by simp
  have eq: "set ?found' \<union> kindKey ` set rest = set found \<union> kindKey ` set (item # rest)"
    by auto
  have ih: "mixedLoop rest ?found' \<longleftrightarrow> 1 < card (set found \<union> kindKey ` set (item # rest))"
    using Cons.IH[OF d] eq by simp
  show ?case
  proof (cases "item = VNil")
    case True
    then show ?thesis using ih by simp
  next
    case False
    show ?thesis
    proof (cases "1 < length ?found'")
      case True
      have "card (set ?found') \<le> card (set found \<union> kindKey ` set (item # rest))"
        by (rule card_mono) auto
      moreover have "card (set ?found') = length ?found'" using d by (rule distinct_card)
      ultimately show ?thesis using True False by (simp add: Let_def)
    next
      case False2: False
      then show ?thesis using False ih by (simp add: Let_def)
    qed
  qed
qed

text \<open>
  Claim C5, as the code has it. \<open>hasMixedTypes\<close> puts every element into exactly one of
  seven classes: null, bool, integer (the signed and unsigned integer kinds), float, string,
  slice and map. Integers and floats are two classes. A sequence is heterogeneous if and
  only if more than one of these seven classes appears among its elements.
\<close>

theorem hasMixedTypes_seven_classes:
  "kindKey x \<in> {''null'', ''bool'', ''integer'', ''float'', ''string'', ''slice'', ''map''}
   \<and> (hasMixedTypes xs \<longleftrightarrow> 1 < card (kindKey ` set xs))"
proof
  show "kindKey x \<in> {''null'', ''bool'', ''integer'', ''float'', ''string'', ''slice'', ''map''}"
    by (cases x) simp_all
  show "hasMixedTypes xs \<longleftrightarrow> 1 < card (kindKey ` set xs)"
  proof (cases "length xs \<le> 1")
    case True
    then have "card (kindKey ` set xs) \<le> 1"
      by (metis card_image_le card_length le_trans List.finite_set)
    then show ?thesis using True by (simp add: hasMixedTypes_def)
  next
    case False
    then show ?thesis using mixedLoop_card[of "[]" xs] by (simp add: hasMixedTypes_def)
  qed
qed

text \<open>
  Claim C5 as the specification words it (six classes, number unified) fails: the sequence
  \<open>[1, 2.5]\<close> holds one class of the six, and \<open>hasMixedTypes\<close> returns true for it.
\<close>

theorem hasMixedTypes_six_classes_counterexample:
  "hasMixedTypes [VInt 1, VFloat 2.5]
   \<and> \<not> 1 < card (specClass ` set [VInt 1, VFloat 2.5])"
  by (simp add: hasMixedTypes_def)

text \<open>
  Claim C6. \<open>hasMixedTypes\<close> is false for the empty list and for every one-element list,
  true for \<open>[1, "a"]\<close>, false for \<open>[1, 2, 3]\<close> and true for \<open>[1, 2.5]\<close>; when the union
  of a heterogeneous array is built, an integer and a float both add the one tag number,
  so that the union built for \<open>[1, 2.5]\<close> is \<open>[number]\<close>.
\<close>

theorem hasMixedTypes_examples:
  "hasMixedTypes [] = False
   \<and> hasMixedTypes [x] = False
   \<and> hasMixedTypes [VInt 1, VStr ''a''] = True
   \<and> hasMixedTypes [VInt 1, VInt 2, VInt 3] = False
   \<and> hasMixedTypes [VInt 1, VFloat 2.5] = True
   \<and> kindKey (VInt i) \<noteq> kindKey (VFloat r)
   \<and> typeMapKey (VInt i) = Some ''number'' \<and> typeMapKey (VFloat r) = Some ''number''
   \<and> InferArrayItemsWithMultipleTypes g [VInt 1, VFloat 2.5] path
       = Inr (newSchema (UnionOf [TypeNumber]) [] None [] None VNil None path)"
  by (simp add: hasMixedTypes_def mixedTypeArray_def typeOfName_def)

subsection \<open>The pattern table and the inferred type\<close>


lemmas table_defs = shouldSupportMultipleTypes_def patternMappings_def objectOrString_def
  stringOrBoolean_def enabledFields_def nullArrayString_def nullString_def nullInteger_def
  configBlocks_def numericTypes_def stringIntegerBoolean_def jsonFields_def kubernetesFields_def
  isMatch_def HasSuffix_def ToLower_def toLowerByte_def

lemmas string_defs = TrimSpace_def isSpace_def HasSuffix_def TrimPrefix_def TrimLeftSpaces_def
  ToLower_def toLowerByte_def SplitN2_def dropCR_def scanLines_def

lemma matchPatterns_iff: "matchPatterns mt pl ps \<longleftrightarrow> (\<exists>pat \<in> set ps. isMatch mt pl pat)"
  by (induction ps) auto

lemma matchMappings_fst:
  "fst (matchMappings pl ms) \<longleftrightarrow> (\<exists>m \<in> set ms. matchPatterns (matchType m) pl (patterns m))"
  by (induction ms) auto

lemma HasPrefix_map: "HasPrefix xs ys \<Longrightarrow> HasPrefix (map f xs) (map f ys)"
  by (induction xs ys rule: HasPrefix.induct) auto

lemma HasSuffix_ToLower_enabled:
  assumes "HasSuffix p ''.enabled''" shows "HasSuffix (ToLower p) ''.enabled''"
proof -
  have "HasPrefix (map toLowerByte (rev p)) (map toLowerByte (rev ''.enabled''))"
    using assms unfolding HasSuffix_def by (rule HasPrefix_map)
  moreover have "map toLowerByte (rev ''.enabled'') = rev ''.enabled''"
    by (simp add: toLowerByte_def)
  ultimately show ?thesis by (simp add: HasSuffix_def ToLower_def rev_map)
qed

lemma enabled_path_matches:
  assumes "p = ''enabled'' \<or> HasSuffix p ''.enabled''"
  shows "fst (shouldSupportMultipleTypes p)"
proof -
  have "isMatch ''exact-or-suffix'' (ToLower p) ''enabled''"
  proof (cases "p = ''enabled''")
    case True
    then show ?thesis by (simp add: isMatch_def ToLower_def toLowerByte_def)
  next
    case False
    then have "HasSuffix (ToLower p) ''.enabled''" using assms HasSuffix_ToLower_enabled by blast
    then show ?thesis by (simp add: isMatch_def)
  qed
  then have "matchPatterns (matchType enabledFields) (ToLower p) (patterns enabledFields)"
    by (simp add: enabledFields_def)
  moreover have "enabledFields \<in> set patternMappings" by (simp add: patternMappings_def)
  ultimately show ?thesis
    unfolding shouldSupportMultipleTypes_def matchMappings_fst by blast
qed

lemma infer_total:
  "(stringKeyed v \<longrightarrow> (\<exists>s. inferSchema g v path = Inr s))"
  "(stringKeyedMap kvs \<longrightarrow> (\<exists>r. inferProperties g path2 kvs props req = Inr r))"
  "(stringKeyedList its \<longrightarrow> (\<exists>s. InferArrayItemsWithMultipleTypes g its path3 = Inr s))"
proof (induction g v path and g path2 kvs props req and g its path3
    rule: inferSchema_inferProperties_InferArrayItemsWithMultipleTypes.induct)
  case (5 g strValue path)
  then show ?case by (simp add: Let_def split: prod.splits)
next
  case (7 g firstItem others path)
  then show ?case by (auto split: sum.splits)
next
  case (8 g mapValue path)
  then show ?case by (auto split: sum.splits)
next
  case (12 g path k v rest props required)
  then show ?case by (auto split: sum.splits)
next
  case (13 g items path)
  then show ?case by (cases items) (auto split: sum.splits)
qed simp_all

text \<open>
  Claim C1, as the code has it. When the pattern table matches the path, the schema that
  \<open>inferSchema\<close> returns for a nil, boolean, signed integer, float, string, slice or
  string-keyed map value has the matched rule's type list as its type, verbatim and in the
  rule's order, and the call does return a schema; the one exception is the string \<open>"-"\<close>
  at the path \<open>enabled\<close> or at a path ending in \<open>.enabled\<close>, for which see the
  counterexample.
\<close>

theorem pattern_wins:
  assumes "shouldSupportMultipleTypes p = (True, tys)"
    and "stringKeyed v" and "\<not> isUint v"
    and "\<not> (v = VStr ''-'' \<and> (p = ''enabled'' \<or> HasSuffix p ''.enabled''))"
  shows "resultType (inferSchema g v p) = Some (UnionOf tys)"
proof -
  have amt: "\<And>ty. applyMultipleTypes p ty = UnionOf tys"
    using assms(1) by (simp add: applyMultipleTypes_def)
  show ?thesis
  proof (cases v)
    case (VSlice xs)
    show ?thesis
    proof (cases xs)
      case Nil
      then show ?thesis using VSlice amt by (simp add: resultType_def newSchema_def)
    next
      case (Cons a list)
      have "\<exists>s. InferArrayItemsWithMultipleTypes g (a # list) p = Inr s"
        using infer_total(3)[of "a # list" g p] assms(2) VSlice Cons by simp
      moreover have "\<exists>s. inferSchema g a (p @ ''[0]'') = Inr s"
        using infer_total(1)[of a g] assms(2) VSlice Cons by simp
      ultimately show ?thesis using VSlice Cons amt
        by (auto simp: resultType_def newSchema_def)
    qed
  next
    case (VMapStr m)
    have "\<exists>r. inferProperties g p m [] [] = Inr r"
      using infer_total(2)[of m g p] assms(2) VMapStr by simp
    then show ?thesis using VMapStr amt by (auto simp: resultType_def newSchema_def)
  next
    case (VStr s)
    then show ?thesis using assms(1,4) by (auto simp: resultType_def newSchema_def Let_def)
  qed (use assms amt in \<open>simp_all add: resultType_def newSchema_def isUint_def\<close>)
qed

theorem pattern_wins_witness:
  "shouldSupportMultipleTypes ''annotations'' = (True, [TypeObject, TypeString])
   \<and> stringKeyed (VMapStr [(''app'', VStr ''nginx'')])
   \<and> \<not> isUint (VMapStr [(''app'', VStr ''nginx'')])
   \<and> resultType (inferSchema DefaultOptions (VMapStr [(''app'', VStr ''nginx'')]) ''annotations'')
       = Some (UnionOf [TypeObject, TypeString])"
proof -
  have h: "shouldSupportMultipleTypes ''annotations'' = (True, [TypeObject, TypeString])"
    by (simp add: table_defs)
  show ?thesis
    using h pattern_wins[OF h, of "VMapStr [(''app'', VStr ''nginx'')]" DefaultOptions]
    by (simp add: isUint_def)
qed

text \<open>
  Claim C1 as stated fails: the path \<open>enabled\<close> matches the rule with the type list
  \<open>[boolean, string]\<close>, and for the string \<open>"-"\<close> the special case for enabled fields
  sets the type \<open>[string, boolean]\<close> after the table was consulted.
\<close>

theorem pattern_wins_counterexample:
  "shouldSupportMultipleTypes ''enabled'' = (True, [TypeBoolean, TypeString])
   \<and> resultType (inferSchema DefaultOptions (VStr ''-'') ''enabled'')
       = Some (UnionOf [TypeString, TypeBoolean])"
  by (simp add: table_defs resultType_def newSchema_def)

text \<open>
  Claim C2, as the code has it. At a path that no rule of the pattern table matches, a
  boolean gets the single type boolean, a signed integer integer, a float number; a string
  gets the single type string unless its content looks like YAML or JSON
  (\<open>isLikelyYAMLOrJSON\<close>), in which case it gets the union \<open>[string, object]\<close>.
\<close>

theorem scalar_types:
  assumes "\<not> fst (shouldSupportMultipleTypes p)"
  shows "resultType (inferSchema g (VBool b) p) = Some (Single TypeBoolean)
       \<and> resultType (inferSchema g (VInt i) p) = Some (Single TypeInteger)
       \<and> resultType (inferSchema g (VFloat r) p) = Some (Single TypeNumber)
       \<and> resultType (inferSchema g (VStr str) p) =
           Some (if isLikelyYAMLOrJSON str then UnionOf [TypeString, TypeObject]
                 else Single TypeString)"
proof -
  have ne: "\<not> (p = ''enabled'' \<or> HasSuffix p ''.enabled'')"
    using assms enabled_path_matches by blast
  obtain tys where st: "shouldSupportMultipleTypes p = (False, tys)"
    using assms by (cases "shouldSupportMultipleTypes p") auto
  have amt: "\<And>ty. applyMultipleTypes p ty = ty"
    using st by (simp add: applyMultipleTypes_def)
  show ?thesis using ne amt st
    by (simp add: resultType_def newSchema_def Let_def)
qed

text \<open>
  Claim C2 as stated fails for a string that looks like YAML: no rule matches the path
  \<open>foo\<close>, and the string \<open>"a: b"\<close> gets the union \<open>[string, object]\<close>.
\<close>

theorem scalar_types_counterexample:
  "\<not> fst (shouldSupportMultipleTypes ''foo'')
   \<and> resultType (inferSchema DefaultOptions (VStr ''a: b'') ''foo'')
       = Some (UnionOf [TypeString, TypeObject])"
  by (simp add: table_defs resultType_def newSchema_def isLikelyYAMLOrJSON_def TrimSpace_def isSpace_def scanLines_def dropCR_def)

theorem scalar_types_witness:
  "\<not> fst (shouldSupportMultipleTypes ''key1'')
   \<and> resultType (inferSchema DefaultOptions (VBool True) ''key1'') = Some (Single TypeBoolean)
   \<and> resultType (inferSchema DefaultOptions (VInt 42) ''key1'') = Some (Single TypeInteger)
   \<and> resultType (inferSchema DefaultOptions (VFloat 2.5) ''key1'') = Some (Single TypeNumber)
   \<and> resultType (inferSchema DefaultOptions (VStr ''value1'') ''key1'') = Some (Single TypeString)"
proof -
  have h: "\<not> fst (shouldSupportMultipleTypes ''key1'')" by (simp add: table_defs)
  have y: "\<not> isLikelyYAMLOrJSON ''value1''" by (simp add: isLikelyYAMLOrJSON_def string_defs)
  show ?thesis
    using h y scalar_types[OF h, of DefaultOptions True 42 "2.5" "''value1''"] by simp
qed

subsection \<open>Comment extraction\<close>


lemmas extract_defs = ExtractFromYAML_def NewCommentExtractor_def initState_def lineStep_def
  keyStep_def commentStep_def commentText_def appendComment_def keyOf_def currentPathOf_def
  storeTopLevel_def unlines_def

text \<open>
  Claim C7. For the text made of the comment line \<open># Comment for key2\<close> and the key line
  \<open>key2: value2\<close>, the extractor's map associates the path \<open>key2\<close> with
  \<open>Comment for key2\<close>; a comment line before \<open>nested1: value3\<close>, indented under the
  key \<open>key3\<close>, is associated with the path \<open>key3.nested1\<close>. Both also hold on the
  whole document of the repository's test.
\<close>

theorem extract_examples:
  "comments (ExtractFromYAML NewCommentExtractor
      (unlines [''# Comment for key2'', ''key2: value2''])) ''key2'' = Some ''Comment for key2''
   \<and> comments (ExtractFromYAML NewCommentExtractor
      (unlines [''key3:'', ''  # Comment for nested1'', ''  nested1: value3''])) ''key3.nested1''
       = Some ''Comment for nested1''
   \<and> comments (ExtractFromYAML NewCommentExtractor testDocument) ''key2''
       = Some ''Comment for key2''
   \<and> comments (ExtractFromYAML NewCommentExtractor testDocument) ''key3.nested1''
       = Some ''Comment for nested1''"
  by (simp add: testDocument_def extract_defs string_defs Let_def)

lemma extractLoop_append: "extractLoop st (xs @ ys) = extractLoop (extractLoop st xs) ys"
  by (induction xs arbitrary: st) auto

lemma lineStep_nonkey:
  assumes "\<not> isKeyLine l"
  shows "foundFirstKey (lineStep st l) = foundFirstKey st"
    and "lineIndents (lineStep st l) = lineIndents st"
    and "extracted (lineStep st l) = extracted st"
    and "\<not> foundFirstKey st \<Longrightarrow> topLevelComment st = pendingComments st
         \<Longrightarrow> topLevelComment (lineStep st l) = pendingComments (lineStep st l)"
  using assms
  by (auto simp: lineStep_def isKeyLine_def isCommentLine_def isBlankLine_def commentStep_def Let_def)

lemma prefix_state:
  assumes "\<forall>l \<in> set pre. \<not> isKeyLine l"
    and "\<not> foundFirstKey st" and "lineIndents st = []"
    and "topLevelComment st = pendingComments st"
  shows "\<not> foundFirstKey (extractLoop st pre) \<and> lineIndents (extractLoop st pre) = []
       \<and> topLevelComment (extractLoop st pre) = pendingComments (extractLoop st pre)
       \<and> extracted (extractLoop st pre) = extracted st"
  using assms
proof (induction pre arbitrary: st)
  case Nil
  then show ?case by simp
next
  case (Cons l pre)
  have nk: "\<not> isKeyLine l" using Cons.prems(1) by simp
  have "\<not> foundFirstKey (lineStep st l)" "lineIndents (lineStep st l) = []"
    "topLevelComment (lineStep st l) = pendingComments (lineStep st l)"
    using lineStep_nonkey[OF nk, of st] Cons.prems by simp_all
  moreover have "\<forall>l \<in> set pre. \<not> isKeyLine l" using Cons.prems(1) by simp
  ultimately show ?case
    using Cons.IH[of "lineStep st l"] lineStep_nonkey(3)[OF nk, of st] by simp
qed

lemma lineStep_key: "isKeyLine l \<Longrightarrow> lineStep st l = keyStep st l"
  by (auto simp: lineStep_def isKeyLine_def isCommentLine_def isBlankLine_def)

lemma top_fixed_step:
  "foundFirstKey st \<Longrightarrow> foundFirstKey (lineStep st l) \<and> topLevelComment (lineStep st l) = topLevelComment st"
  by (auto simp: lineStep_def commentStep_def keyStep_def Let_def)

lemma top_fixed:
  "foundFirstKey st \<Longrightarrow> topLevelComment (extractLoop st ls) = topLevelComment st"
proof (induction ls arbitrary: st)
  case Nil
  then show ?case by simp
next
  case (Cons l ls)
  then show ?case using top_fixed_step[of st l] by simp
qed

lemma extracted_step:
  "extracted (lineStep st l) k =
     (if isKeyLine l \<and> pendingComments st \<noteq> [] \<and> Join (currentPathOf st l) ''.'' = k
      then Some (pendingComments st) else extracted st k)"
  by (auto simp: lineStep_def keyStep_def commentStep_def Let_def isKeyLine_def
      isCommentLine_def isBlankLine_def)

lemma extracted_kept:
  "k \<notin> set (assignedPaths st ls) \<Longrightarrow> extracted (extractLoop st ls) k = extracted st k"
proof (induction ls arbitrary: st)
  case Nil
  then show ?case by simp
next
  case (Cons l ls)
  have "extracted (extractLoop (lineStep st l) ls) k = extracted (lineStep st l) k"
    using Cons by (simp split: if_splits)
  also have "\<dots> = extracted st k"
    using Cons.prems by (auto simp: extracted_step split: if_splits)
  finally show ?case by simp
qed

lemma first_key_state:
  assumes "\<forall>l \<in> set pre. \<not> isKeyLine l" and "isKeyLine keyLine"
    and "c = pendingComments (scanState pre)" and "c \<noteq> []"
  shows "foundFirstKey (lineStep (scanState pre) keyLine)"
    and "topLevelComment (lineStep (scanState pre) keyLine) = c"
    and "extracted (lineStep (scanState pre) keyLine) (keyOf keyLine) = Some c"
proof -
  let ?st = "scanState pre"
  have inv: "\<not> foundFirstKey ?st \<and> lineIndents ?st = []
       \<and> topLevelComment ?st = pendingComments ?st"
    unfolding scanState_def
    using prefix_state[OF assms(1), of "initState NewCommentExtractor"]
    by (simp add: initState_def)
  have ks: "lineStep ?st keyLine = keyStep ?st keyLine" using assms(2) by (rule lineStep_key)
  show "foundFirstKey (lineStep ?st keyLine)" by (simp add: ks keyStep_def Let_def)
  show "topLevelComment (lineStep ?st keyLine) = c"
    using inv assms(3) by (simp add: ks keyStep_def Let_def)
  have "currentPathOf ?st keyLine = [keyOf keyLine]"
    using inv by (simp add: currentPathOf_def Let_def)
  then show "extracted (lineStep ?st keyLine) (keyOf keyLine) = Some c"
    using assms(3,4) by (simp add: ks keyStep_def Let_def)
qed

lemma extract_twice:
  assumes "scanLines yamlData = pre @ keyLine # rest"
    and "\<forall>l \<in> set pre. \<not> isKeyLine l" and "isKeyLine keyLine"
    and "c = pendingComments (scanState pre)" and "c \<noteq> []"
    and "keyOf keyLine \<notin> set (assignedPaths (lineStep (scanState pre) keyLine) rest)"
    and "comments e = Map.empty"
  shows "comments (ExtractFromYAML e yamlData) [] = Some c"
    and "comments (ExtractFromYAML e yamlData) (keyOf keyLine) = Some c"
proof -
  let ?st1 = "lineStep (scanState pre) keyLine"
  have ie: "initState e = initState NewCommentExtractor"
    using assms(7) by (simp add: initState_def NewCommentExtractor_def)
  have fin: "extractLoop (initState e) (scanLines yamlData) = extractLoop ?st1 rest"
    by (simp add: assms(1) extractLoop_append scanState_def ie)
  note fk = first_key_state[OF assms(2,3,4,5)]
  have top: "topLevelComment (extractLoop ?st1 rest) = c"
    using top_fixed[OF fk(1), of rest] fk(2) by simp
  have key: "extracted (extractLoop ?st1 rest) (keyOf keyLine) = Some c"
    using extracted_kept[OF assms(6)] fk(3) by simp
  show "comments (ExtractFromYAML e yamlData) [] = Some c"
    using top assms(5) by (simp add: ExtractFromYAML_def fin storeTopLevel_def)
  show "comments (ExtractFromYAML e yamlData) (keyOf keyLine) = Some c"
    using top key assms(5) by (simp add: ExtractFromYAML_def fin storeTopLevel_def)
qed

lemma inferSchema_path_desc:
  "inferSchema g v p = Inr s \<Longrightarrow> HelmPath s = p \<and> Description s = []"
proof (cases v)
  case (VSlice xs)
  assume "inferSchema g v p = Inr s"
  then show ?thesis using VSlice
    by (cases xs) (auto simp: newSchema_def split: if_splits sum.splits)
qed (auto simp: newSchema_def Let_def split: sum.splits prod.splits if_splits)

lemma mapSet_set: "set (mapSet k v m) \<subseteq> insert (k, v) (set m)"
  by (induction k v m rule: mapSet.induct) auto

lemma generateLoop_inv:
  "generateLoop g kvs props req = Inr (props', req') \<Longrightarrow>
   \<forall>(k, s) \<in> set props. HelmPath s = k \<and> Description s = [] \<Longrightarrow>
   \<forall>(k, s) \<in> set props'. HelmPath s = k \<and> Description s = []"
proof (induction kvs arbitrary: props req)
  case Nil
  then show ?case by simp
next
  case (Cons kv kvs)
  obtain key v where kv: "kv = (key, v)" by (cases kv)
  from Cons.prems(1) kv obtain propSchema where
    ps: "inferSchema g v key = Inr propSchema" and
    rest: "generateLoop g kvs (mapSet key propSchema props)
             (if RequireByDefault g \<and> v \<noteq> VNil then req @ [key] else req) = Inr (props', req')"
    by (auto split: sum.splits)
  have "\<forall>(k, s) \<in> set (mapSet key propSchema props). HelmPath s = k \<and> Description s = []"
    using mapSet_set[of key propSchema props] inferSchema_path_desc[OF ps] Cons.prems(2)
    by auto
  then show ?case using Cons.IH[OF rest] by simp
qed

lemma applyToProperties_set:
  "(k, node) \<in> set (applyToProperties e ps) \<Longrightarrow>
   \<exists>n0. (k, n0) \<in> set ps \<and> node = ApplyCommentsToSchema e n0"
proof (induction ps)
  case Nil
  then show ?case by simp
next
  case (Cons a ps)
  then show ?case by (cases a) auto
qed

lemma Apply_description:
  "Description (ApplyCommentsToSchema e s) =
     (case comments e (HelmPath s) of
        Some c \<Rightarrow> if Description s = [] then c else Description s
      | None \<Rightarrow> Description s)"
  by (cases s) (auto split: option.splits)

lemma Apply_properties:
  "Properties (ApplyCommentsToSchema e s) =
     (case Properties s of None \<Rightarrow> None | Some ps \<Rightarrow> Some (applyToProperties e ps))"
  by (cases s) (auto split: option.splits)

lemma withDescription_sel:
  "Description (withDescription d s) = d" "HelmPath (withDescription d s) = HelmPath s"
  "Properties (withDescription d s) = Properties s"
  by (cases s; simp)+

lemma GenerateFromMap_root:
  assumes "GenerateFromMap g dataMap = Inr s0"
  shows "Description s0 = OptDescription g \<and> HelmPath s0 = []
       \<and> (\<exists>props0. Properties s0 = Some props0
            \<and> (\<forall>(k, s) \<in> set props0. HelmPath s = k \<and> Description s = []))"
proof -
  from assms obtain props0 req0 where
    gl: "generateLoop g dataMap [] [] = Inr (props0, req0)" and
    s0: "s0 = Schema (SchemaVersion g) (OptTitle g) (OptDescription g) (Single TypeObject) []
                 (Some props0) req0 None None None [] VNil None []"
    by (auto simp: GenerateFromMap_def split: sum.splits)
  have "\<forall>(k, s) \<in> set props0. HelmPath s = k \<and> Description s = []"
    using generateLoop_inv[OF gl] by simp
  then show ?thesis using s0 by simp
qed

text \<open>
  Claim C10, as the code has it. Let the lines before the first key line hold comment lines
  whose accumulated text \<open>c\<close> is not empty. Then the extractor records \<open>c\<close> under the
  empty path and under the first key's path, where it stays unless a later key line with a
  pending comment of its own is assigned the same path. With description extraction
  enabled and no root description configured, the root schema gets the description \<open>c\<close>,
  and so does the schema node of the first key.
\<close>

theorem top_comment_recorded_twice:
  assumes "scanLines yamlData = pre @ keyLine # rest"
    and "\<forall>l \<in> set pre. \<not> isKeyLine l" and "isKeyLine keyLine"
    and "c = pendingComments (scanState pre)" and "c \<noteq> []"
    and "keyOf keyLine \<notin> set (assignedPaths (lineStep (scanState pre) keyLine) rest)"
  shows "comments (ExtractFromYAML NewCommentExtractor yamlData) [] = Some c
       \<and> comments (ExtractFromYAML NewCommentExtractor yamlData) (keyOf keyLine) = Some c
       \<and> (ExtractDescriptions g \<and> OptDescription g = []
            \<and> GenerateFromYAML g data yamlData = Inr schema \<longrightarrow>
          Description schema = c
          \<and> (\<forall>props node. Properties schema = Some props \<and> (keyOf keyLine, node) \<in> set props
                \<longrightarrow> Description node = c))"
proof (intro conjI impI)
  have e0: "comments NewCommentExtractor = Map.empty" by (simp add: NewCommentExtractor_def)
  show "comments (ExtractFromYAML NewCommentExtractor yamlData) [] = Some c"
    using extract_twice(1)[OF assms e0] .
  show "comments (ExtractFromYAML NewCommentExtractor yamlData) (keyOf keyLine) = Some c"
    using extract_twice(2)[OF assms e0] .
next
  assume a: "ExtractDescriptions g \<and> OptDescription g = []
     \<and> GenerateFromYAML g data yamlData = Inr schema"
  let ?e = "ExtractFromYAML (NewCommentExtractor\<lparr>ExtractorDebug := Debug g\<rparr>) yamlData"
  have e0: "comments (NewCommentExtractor\<lparr>ExtractorDebug := Debug g\<rparr>) = Map.empty"
    by (simp add: NewCommentExtractor_def)
  have top: "comments ?e [] = Some c" using extract_twice(1)[OF assms e0] .
  have key: "comments ?e (keyOf keyLine) = Some c" using extract_twice(2)[OF assms e0] .
  from a obtain dataMap s0 where
    gm: "GenerateFromMap g dataMap = Inr s0" and sch: "schema = describe g yamlData s0"
    by (auto simp: GenerateFromYAML_def split: sum.splits any.splits)
  from GenerateFromMap_root[OF gm] a obtain props0 where
    d0: "Description s0 = []" and h0: "HelmPath s0 = []" and p0: "Properties s0 = Some props0"
    and inv: "\<forall>(k, s) \<in> set props0. HelmPath s = k \<and> Description s = []"
    by auto
  have gc: "GetComment ?e [] = c" using top by (simp add: GetComment_def)
  have sch': "schema = ApplyCommentsToSchema ?e (withDescription c s0)"
    using sch gc d0 assms(5) by (simp add: describe_def Let_def)
  show "Description schema = c"
    using top assms(5) by (simp add: sch' Apply_description withDescription_sel h0)
  show "\<forall>props node. Properties schema = Some props \<and> (keyOf keyLine, node) \<in> set props
          \<longrightarrow> Description node = c"
  proof (intro allI impI)
    fix props node
    assume pn: "Properties schema = Some props \<and> (keyOf keyLine, node) \<in> set props"
    then have "props = applyToProperties ?e props0"
      by (simp add: sch' Apply_properties withDescription_sel p0)
    then obtain n0 where n0: "(keyOf keyLine, n0) \<in> set props0"
      and node: "node = ApplyCommentsToSchema ?e n0"
      using pn applyToProperties_set by blast
    have "HelmPath n0 = keyOf keyLine \<and> Description n0 = []" using inv n0 by auto
    then show "Description node = c" using key by (simp add: node Apply_description)
  qed
qed


text \<open>
  Claim C10 as stated fails in two ways. In \<open>dottedDocument\<close> the first key's path
  \<open>x.y\<close> is assigned again by the later, commented line \<open>y: 2\<close> under \<open>x\<close>, so the
  map ends with a different text under the empty path and under the first key's path. And
  when a root description is configured, the root schema keeps it while the first key's
  node gets the comment.
\<close>

theorem top_comment_recorded_twice_counterexample:
  "comments (ExtractFromYAML NewCommentExtractor dottedDocument) [] = Some ''Top''
   \<and> comments (ExtractFromYAML NewCommentExtractor dottedDocument) ''x.y'' = Some ''B''
   \<and> GenerateFromYAML (DefaultOptions\<lparr>OptDescription := ''My chart''\<rparr>)
         (VMapAny [(VStr ''key1'', VStr ''value1'')])
         (unlines [''# Test values'', ''key1: value1'']) = Inr describedSchema
   \<and> Description describedSchema = ''My chart''"
  by (simp add: dottedDocument_def extract_defs string_defs Let_def GenerateFromYAML_def
      GenerateFromMap_def DefaultOptions_def table_defs newSchema_def describe_def GetComment_def
      isLikelyYAMLOrJSON_def inferFormat_def isDate_def isDateTime_def isEmail_def isURI_def
      describedSchema_def)


theorem top_comment_recorded_twice_witness:
  "scanLines smallDocument = [''# Test values''] @ ''key1: value1'' # [''key2: 42'']
   \<and> \<not> isKeyLine ''# Test values''
   \<and> isKeyLine ''key1: value1''
   \<and> ''Test values'' = pendingComments (scanState [''# Test values''])
   \<and> keyOf ''key1: value1'' = ''key1''
   \<and> keyOf ''key1: value1''
        \<notin> set (assignedPaths (lineStep (scanState [''# Test values'']) ''key1: value1'')
                  [''key2: 42''])
   \<and> ExtractDescriptions DefaultOptions \<and> OptDescription DefaultOptions = []
   \<and> GenerateFromYAML DefaultOptions smallData smallDocument = Inr smallSchema
   \<and> comments (ExtractFromYAML NewCommentExtractor smallDocument) [] = Some ''Test values''
   \<and> comments (ExtractFromYAML NewCommentExtractor smallDocument) ''key1'' = Some ''Test values''
   \<and> Description smallSchema = ''Test values''
   \<and> map_option Description (propertyOf smallSchema ''key1'') = Some ''Test values''"
proof -
  have h1: "scanLines smallDocument = [''# Test values''] @ ''key1: value1'' # [''key2: 42'']"
    by (simp add: smallDocument_def unlines_def scanLines_def dropCR_def)
  have h2': "\<not> isKeyLine ''# Test values''"
    by (simp add: isKeyLine_def isCommentLine_def isBlankLine_def string_defs)
  then have h2: "\<forall>l \<in> set [''# Test values'']. \<not> isKeyLine l" by simp
  have h3: "isKeyLine ''key1: value1''"
    by (simp add: isKeyLine_def isCommentLine_def isBlankLine_def string_defs)
  have h4: "''Test values'' = pendingComments (scanState [''# Test values''])"
    by (simp add: scanState_def extract_defs string_defs Let_def)
  have h5: "''Test values'' \<noteq> []" by simp
  have k: "keyOf ''key1: value1'' = ''key1''" by (simp add: keyOf_def string_defs)
  have h6: "keyOf ''key1: value1''
        \<notin> set (assignedPaths (lineStep (scanState [''# Test values'']) ''key1: value1'')
                  [''key2: 42''])"
    by (simp add: scanState_def extract_defs string_defs Let_def isKeyLine_def
        isCommentLine_def isBlankLine_def)
  have g1: "ExtractDescriptions DefaultOptions \<and> OptDescription DefaultOptions = []"
    by (simp add: DefaultOptions_def)
  have g2: "GenerateFromYAML DefaultOptions smallData smallDocument = Inr smallSchema"
    by (simp add: smallDocument_def smallData_def smallSchema_def extract_defs string_defs
        Let_def GenerateFromYAML_def GenerateFromMap_def DefaultOptions_def table_defs
        newSchema_def describe_def GetComment_def isLikelyYAMLOrJSON_def inferFormat_def
        isDate_def isDateTime_def isEmail_def isURI_def applyMultipleTypes_def)
  note res = top_comment_recorded_twice[OF h1 h2 h3 h4 h5 h6,
      of DefaultOptions smallData smallSchema, unfolded k]
  have r1: "comments (ExtractFromYAML NewCommentExtractor smallDocument) [] = Some ''Test values''"
    using res by blast
  have r2: "comments (ExtractFromYAML NewCommentExtractor smallDocument) ''key1''
      = Some ''Test values''"
    using res by blast
  have r3: "Description smallSchema = ''Test values''
      \<and> (\<forall>props node. Properties smallSchema = Some props \<and> (''key1'', node) \<in> set props
          \<longrightarrow> Description node = ''Test values'')"
    using res g1 g2 by blast
  obtain props node where pn: "Properties smallSchema = Some props" "(''key1'', node) \<in> set props"
    "propertyOf smallSchema ''key1'' = Some node"
    by (simp add: smallSchema_def propertyOf_def)
  then have "Description node = ''Test values''" using r3 by blast
  then have r4: "map_option Description (propertyOf smallSchema ''key1'') = Some ''Test values''"
    using pn(3) by simp
  from h1 h2' h3 h4 k h6 g1 g2 r1 r2 r3 r4 show ?thesis by blast
qed

subsection \<open>Structural errors\<close>


lemma convert_cases:
  "(hasNonStringKey v \<longrightarrow> (\<exists>k. \<not> isStr k \<and> convertYAMLToStringMap v = Inl (NonStringKey k)))
   \<and> (\<not> hasNonStringKey v \<longrightarrow> (\<exists>c. convertYAMLToStringMap v = Inr c \<and> isMapping c = isMapping v))"
  "(nonStringKeyInMap kvs \<longrightarrow> (\<exists>k. \<not> isStr k \<and> convertMapLoop kvs m = Inl (NonStringKey k)))
   \<and> (\<not> nonStringKeyInMap kvs \<longrightarrow> (\<exists>m'. convertMapLoop kvs m = Inr m'))"
  "(nonStringKeyInSlice vs \<longrightarrow> (\<exists>k. \<not> isStr k \<and> convertSliceLoop vs = Inl (NonStringKey k)))
   \<and> (\<not> nonStringKeyInSlice vs \<longrightarrow> (\<exists>vs'. convertSliceLoop vs = Inr vs'))"
proof (induction v and kvs m and vs rule: convertYAMLToStringMap_convertMapLoop_convertSliceLoop.induct)
  case (1 x)
  then show ?case by (auto simp: isMapping_def)
next
  case (2 x)
  then show ?case by (auto simp: isMapping_def)
next
  case (11 k v rest m)
  show ?case
  proof (cases k)
    case (VStr str)
    show ?thesis
    proof (cases "hasNonStringKey v")
      case True
      then show ?thesis using 11(1)[OF VStr] VStr by (auto simp: isStr_def)
    next
      case False
      then obtain c where c: "convertYAMLToStringMap v = Inr c" using 11(1)[OF VStr] by auto
      show ?thesis using 11(2)[OF VStr c] False c VStr by (auto simp: isStr_def)
    qed
  qed (auto simp: isStr_def)
next
  case (13 v rest)
  show ?case
  proof (cases "hasNonStringKey v")
    case True
    then show ?thesis using 13(1) by auto
  next
    case False
    then obtain c where c: "convertYAMLToStringMap v = Inr c" using 13(1) by auto
    show ?thesis using 13(2)[OF c] False c by auto
  qed
qed (simp_all add: isMapping_def)

text \<open>
  Claim C8, as the code has it. When the decoded input holds a key that is not a string,
  anywhere in it, \<open>GenerateFromYAML\<close> returns no schema but the error
  \<open>failed to convert YAML: non-string key in YAML: k\<close>, which carries the offending key
  \<open>k\<close>; when all keys are strings and the root is not a mapping, it returns no schema but
  the error \<open>root YAML value must be a map\<close>.
\<close>

theorem generate_aborts:
  "(hasNonStringKey data \<longrightarrow>
      (\<exists>k. \<not> isStr k \<and> GenerateFromYAML g data yamlData
              = Inl (Wrapped ''failed to convert YAML'' (NonStringKey k))))
   \<and> (\<not> hasNonStringKey data \<and> \<not> isMapping data \<longrightarrow>
      (\<exists>v. GenerateFromYAML g data yamlData = Inl (RootNotMap v)))"
proof (intro conjI impI)
  assume "hasNonStringKey data"
  then obtain k where "\<not> isStr k" "convertYAMLToStringMap data = Inl (NonStringKey k)"
    using convert_cases(1)[of data] by blast
  then show "\<exists>k. \<not> isStr k \<and> GenerateFromYAML g data yamlData
              = Inl (Wrapped ''failed to convert YAML'' (NonStringKey k))"
    by (auto simp: GenerateFromYAML_def)
next
  assume a: "\<not> hasNonStringKey data \<and> \<not> isMapping data"
  then obtain c where c: "convertYAMLToStringMap data = Inr c" "isMapping c = isMapping data"
    using convert_cases(1)[of data] by blast
  then have "\<not> isMapping c" using a by simp
  then show "\<exists>v. GenerateFromYAML g data yamlData = Inl (RootNotMap v)"
    using c(1) by (cases c) (auto simp: GenerateFromYAML_def isMapping_def)
qed

theorem generate_aborts_witness:
  "hasNonStringKey (VMapAny [(VStr ''a'', VMapAny [(VInt 1, VStr ''x'')])])
   \<and> (\<exists>k. \<not> isStr k \<and>
         GenerateFromYAML DefaultOptions (VMapAny [(VStr ''a'', VMapAny [(VInt 1, VStr ''x'')])]) []
           = Inl (Wrapped ''failed to convert YAML'' (NonStringKey k)))
   \<and> \<not> hasNonStringKey (VSlice [VStr ''item'']) \<and> \<not> isMapping (VSlice [VStr ''item''])
   \<and> (\<exists>v. GenerateFromYAML DefaultOptions (VSlice [VStr ''item'']) [] = Inl (RootNotMap v))"
proof -
  have h1: "hasNonStringKey (VMapAny [(VStr ''a'', VMapAny [(VInt 1, VStr ''x'')])])"
    by (simp add: isStr_def)
  have h2: "\<not> hasNonStringKey (VSlice [VStr ''item'']) \<and> \<not> isMapping (VSlice [VStr ''item''])"
    by (simp add: isMapping_def)
  show ?thesis
    using h1 h2
      generate_aborts[of "VMapAny [(VStr ''a'', VMapAny [(VInt 1, VStr ''x'')])]" DefaultOptions "[]"]
      generate_aborts[of "VSlice [VStr ''item'']" DefaultOptions "[]"]
    by blast
qed

text \<open>
  Claim C8 as stated says that the error carries the offending path. It does not: a
  non-string key under the path \<open>a\<close> and one under the path \<open>b[0]\<close> give the same
  error value, which names the key only.
\<close>

theorem generate_aborts_counterexample:
  "GenerateFromYAML DefaultOptions (VMapAny [(VStr ''a'', VMapAny [(VInt 1, VStr ''x'')])]) []
     = Inl (Wrapped ''failed to convert YAML'' (NonStringKey (VInt 1)))
   \<and> GenerateFromYAML DefaultOptions
        (VMapAny [(VStr ''b'', VSlice [VMapAny [(VInt 1, VStr ''x'')]])]) []
     = Inl (Wrapped ''failed to convert YAML'' (NonStringKey (VInt 1)))"
  by (simp add: GenerateFromYAML_def)

subsection \<open>The linter\<close>



lemma namingLoop_None: "namingLoop path props issues = None \<longleftrightarrow> [] \<in> fst ` set props"
  by (induction path props issues rule: namingLoop.induct) auto

lemma checkNaming_None:
  "checkNamingConventions s path issues = None \<longleftrightarrow> path \<noteq> [] \<and> hasEmptyName s"
  by (auto simp: checkNamingConventions_def hasEmptyName_def namingLoop_None split: option.splits)


lemma validate_None:
  "\<forall>depth issues. validateSchema s path depth issues = None
      \<longleftrightarrow> (\<exists>pn \<in> set (visitedNodes s path). badNode pn)"
  "\<forall>depth issues. validateProperties ps path2 depth issues = None
      \<longleftrightarrow> (\<exists>pn \<in> set (visitedProperties ps path2). badNode pn)"
proof (induction s path and ps path2 rule: visitedNodes_visitedProperties.induct)
  case (1 schema path)
  note unf = validateSchema.simps(1)[of schema path] visitedNodes.simps(1)[of schema path]
  show ?case
  proof (intro allI)
    fix depth issues
    show "validateSchema schema path depth issues = None
      \<longleftrightarrow> (\<exists>pn \<in> set (visitedNodes schema path). badNode pn)"
    proof (cases "checkNamingConventions schema path issues")
      case None
      then have "badNode (path, schema)" by (simp add: checkNaming_None badNode_def)
      then show ?thesis using None by (simp add: unf)
    next
      case (Some issues1)
      note cn = Some
      then have nb: "\<not> badNode (path, schema)"
        using checkNaming_None[of schema path issues] by (simp add: badNode_def)
      let ?i4 = "checkDocumentation schema path
                 (checkArrayStructures schema path (checkNestingDepth depth path issues1))"
      have props: "(case Properties schema of None \<Rightarrow> Some ?i4
              | Some props \<Rightarrow> validateProperties props path depth ?i4) = None
          \<longleftrightarrow> (\<exists>pn \<in> set (case Properties schema of None \<Rightarrow> []
                  | Some props \<Rightarrow> visitedProperties props path). badNode pn)"
        using 1(1) by (cases "Properties schema") auto
      have its: "\<And>issues5. (if isArrayTyped schema then
                   (case Items schema of
                      None \<Rightarrow> Some issues5
                    | Some item \<Rightarrow> validateSchema item (path @ ''[]'') (depth + 1) issues5)
                 else Some issues5) = None
          \<longleftrightarrow> (\<exists>pn \<in> set (case itemsToVisit schema of None \<Rightarrow> []
                  | Some item \<Rightarrow> visitedNodes item (path @ ''[]'')). badNode pn)"
        using 1(2) by (cases "isArrayTyped schema"; cases "Items schema")
          (auto simp: itemsToVisit_def)
      let ?PS = "set (case Properties schema of None \<Rightarrow> []
                  | Some props \<Rightarrow> visitedProperties props path)"
      let ?IS = "set (case itemsToVisit schema of None \<Rightarrow> []
                  | Some item \<Rightarrow> visitedNodes item (path @ ''[]''))"
      have vs: "set (visitedNodes schema path) = insert (path, schema) (?PS \<union> ?IS)"
        by (simp add: visitedNodes.simps(1)[of schema path])
      show ?thesis
      proof (cases "case Properties schema of None \<Rightarrow> Some ?i4
              | Some props \<Rightarrow> validateProperties props path depth ?i4")
        case None
        then have v: "validateSchema schema path depth issues = None"
          using cn by (simp add: validateSchema.simps(1)[of schema path] Let_def)
        have "\<exists>pn \<in> ?PS. badNode pn" using None props by simp
        then have "\<exists>pn \<in> insert (path, schema) (?PS \<union> ?IS). badNode pn" by blast
        then show ?thesis unfolding vs v by simp
      next
        case (Some issues5)
        then have np: "\<not> (\<exists>pn \<in> ?PS. badNode pn)"
          using props by simp
        have "validateSchema schema path depth issues =
            (if isArrayTyped schema then
                   (case Items schema of
                      None \<Rightarrow> Some issues5
                    | Some item \<Rightarrow> validateSchema item (path @ ''[]'') (depth + 1) issues5)
                 else Some issues5)"
          using cn Some by (simp add: validateSchema.simps(1)[of schema path] Let_def)
        then have v: "validateSchema schema path depth issues = None
            \<longleftrightarrow> (\<exists>pn \<in> ?IS. badNode pn)"
          using its[of issues5] by simp
        have "(\<exists>pn \<in> insert (path, schema) (?PS \<union> ?IS). badNode pn)
            \<longleftrightarrow> (\<exists>pn \<in> ?IS. badNode pn)"
          using nb np by blast
        then show ?thesis unfolding vs v by simp
      qed
    qed
  qed
next
  case (2 path)
  then show ?case by simp
next
  case (3 propName propSchema rest path)
  show ?case
  proof (intro allI)
    fix depth issues
    let ?p = "if path = [] then propName else path @ ''.'' @ propName"
    show "validateProperties ((propName, propSchema) # rest) path depth issues = None
      \<longleftrightarrow> (\<exists>pn \<in> set (visitedProperties ((propName, propSchema) # rest) path). badNode pn)"
    proof (cases "validateSchema propSchema ?p (depth + 1) issues")
      case None
      then have "\<exists>pn \<in> set (visitedNodes propSchema ?p). badNode pn" using 3(1) by blast
      then show ?thesis using None by auto
    next
      case (Some issues')
      then have "\<not> (\<exists>pn \<in> set (visitedNodes propSchema ?p). badNode pn)"
        using 3(1) by (metis option.distinct(1))
      then show ?thesis using Some 3(2) by auto
    qed
  qed
qed

text \<open>
  Claim C9, as the code has it. \<open>checkNamingConventions\<close> takes \<open>propName[:1]\<close> of every
  property name without a check, which is out of range for the empty name. The linter fails
  in this way if and only if some node that it visits at a non-empty path has a property
  whose name is empty; the nodes it visits are the root (at the empty path), the properties
  of a visited node, and the items of a visited node whose type includes array.
\<close>

theorem naming_check_panics:
  "ValidateHelmBestPractices schema = None
   \<longleftrightarrow> (\<exists>(path, node) \<in> set (visitedNodes schema []). path \<noteq> [] \<and> hasEmptyName node)"
proof -
  have "ValidateHelmBestPractices schema = None
      \<longleftrightarrow> (\<exists>pn \<in> set (visitedNodes schema []). badNode pn)"
    using validate_None(1)[of schema "[]"] by (simp add: ValidateHelmBestPractices_def)
  also have "\<dots> \<longleftrightarrow> (\<exists>(path, node) \<in> set (visitedNodes schema []). path \<noteq> [] \<and> hasEmptyName node)"
    by (simp add: badNode_def split_beta)
  finally show ?thesis .
qed

lemmas linter_defs = ValidateHelmBestPractices_def validateSchema.simps(1) visitedNodes.simps(1)
  checkNamingConventions_def checkNestingDepth_def checkArrayStructures_def
  checkDocumentation_def isArrayTyped_def isTypeInArray_def itemsToVisit_def MaxNestingDepth_def
  namingIssues_def itemsIssue_def constraintsIssue_def Count_def hasEmptyName_def leafSchema_def
  Let_def

theorem naming_check_panics_witness:
  "ValidateHelmBestPractices emptyNameTree = None
   \<and> (\<exists>(path, node) \<in> set (visitedNodes emptyNameTree []). path \<noteq> [] \<and> hasEmptyName node)"
proof -
  have "\<exists>(path, node) \<in> set (visitedNodes emptyNameTree []). path \<noteq> [] \<and> hasEmptyName node"
    by (simp add: emptyNameTree_def linter_defs)
  then show ?thesis using naming_check_panics[of emptyNameTree] by blast
qed

text \<open>
  Claim C9 as stated, for every tree with an empty property name under some non-root node,
  fails: in the schema generated for \<open>podAnnotations: [{"": 1}]\<close> the items node has a
  property with the empty name, but the pattern table gave the array node the type
  \<open>[object, string]\<close>, so the linter never visits its items and returns its report.
\<close>

theorem naming_check_panics_counterexample:
  "GenerateFromYAML DefaultOptions annotationsData [] = Inr annotationsSchema
   \<and> map_option hasEmptyName (itemsUnder annotationsSchema ''podAnnotations'') = Some True
   \<and> ValidateHelmBestPractices annotationsSchema =
     Some [\<lparr>Path = ''podAnnotations'', Message = ''Property should have a description'',
             Level = Warning\<rparr>,
           \<lparr>Path = ''podAnnotations'', Message = ''Consider adding examples or default value'',
             Level = Info\<rparr>]"
proof (intro conjI)
  show "GenerateFromYAML DefaultOptions annotationsData [] = Inr annotationsSchema"
    by (simp add: annotationsData_def annotationsSchema_def
      GenerateFromYAML_def GenerateFromMap_def DefaultOptions_def table_defs newSchema_def
      applyMultipleTypes_def hasMixedTypes_def keyIndicatesMultiple_def describe_def
      GetComment_def extract_defs scanLines_def)
  show "map_option hasEmptyName (itemsUnder annotationsSchema ''podAnnotations'') = Some True"
    by (simp add: annotationsSchema_def itemsUnder_def hasEmptyName_def)
  show "ValidateHelmBestPractices annotationsSchema =
     Some [\<lparr>Path = ''podAnnotations'', Message = ''Property should have a description'',
             Level = Warning\<rparr>,
           \<lparr>Path = ''podAnnotations'', Message = ''Consider adding examples or default value'',
             Level = Info\<rparr>]"
    by (simp add: annotationsSchema_def linter_defs)
qed

lemma namingLoop_mono:
  "namingLoop path props issues = Some r \<Longrightarrow> set issues \<subseteq> set r"
  by (induction path props issues rule: namingLoop.induct) (auto split: if_splits)

lemma checkNaming_mono:
  "checkNamingConventions s path issues = Some r \<Longrightarrow> set issues \<subseteq> set r"
  using namingLoop_mono
  by (fastforce simp: checkNamingConventions_def split: option.splits if_splits)

lemma checkNesting_mono: "set issues \<subseteq> set (checkNestingDepth depth path issues)"
  by (auto simp: checkNestingDepth_def)

lemma checkArray_mono: "set issues \<subseteq> set (checkArrayStructures s path issues)"
  by (auto simp: checkArrayStructures_def Let_def)

lemma checkDoc_mono: "set issues \<subseteq> set (checkDocumentation s path issues)"
  by (auto simp: checkDocumentation_def Let_def)


lemma checkArray_emits:
  "needsConstraints (path, s) \<Longrightarrow> constraintsIssue path \<in> set (checkArrayStructures s path issues)"
  by (cases path) (auto simp: needsConstraints_def checkArrayStructures_def Let_def)

lemma validate_emits:
  "\<forall>depth issues r. validateSchema s path depth issues = Some r \<longrightarrow>
      set issues \<subseteq> set r
      \<and> (\<forall>pn \<in> set (visitedNodes s path). needsConstraints pn \<longrightarrow> constraintsIssue (fst pn) \<in> set r)"
  "\<forall>depth issues r. validateProperties ps path2 depth issues = Some r \<longrightarrow>
      set issues \<subseteq> set r
      \<and> (\<forall>pn \<in> set (visitedProperties ps path2). needsConstraints pn \<longrightarrow> constraintsIssue (fst pn) \<in> set r)"
proof (induction s path and ps path2 rule: visitedNodes_visitedProperties.induct)
  case (1 schema path)
  show ?case
  proof (intro allI impI)
    fix depth issues r
    assume v: "validateSchema schema path depth issues = Some r"
    then obtain issues1 where cn: "checkNamingConventions schema path issues = Some issues1"
      by (cases "checkNamingConventions schema path issues")
         (auto simp: validateSchema.simps(1)[of schema path])
    let ?i4 = "checkDocumentation schema path
                 (checkArrayStructures schema path (checkNestingDepth depth path issues1))"
    let ?PS = "set (case Properties schema of None \<Rightarrow> []
                  | Some props \<Rightarrow> visitedProperties props path)"
    let ?IS = "set (case itemsToVisit schema of None \<Rightarrow> []
                  | Some item \<Rightarrow> visitedNodes item (path @ ''[]''))"
    have vs: "set (visitedNodes schema path) = insert (path, schema) (?PS \<union> ?IS)"
      by (simp add: visitedNodes.simps(1)[of schema path])
    from v cn obtain issues5 where
      p5: "(case Properties schema of None \<Rightarrow> Some ?i4
              | Some props \<Rightarrow> validateProperties props path depth ?i4) = Some issues5"
      and r5: "(if isArrayTyped schema then
                   (case Items schema of
                      None \<Rightarrow> Some issues5
                    | Some item \<Rightarrow> validateSchema item (path @ ''[]'') (depth + 1) issues5)
                 else Some issues5) = Some r"
      by (auto simp: validateSchema.simps(1)[of schema path] Let_def split: option.splits)
    have i4: "set issues \<subseteq> set ?i4"
      by (rule subset_trans[OF checkNaming_mono[OF cn]
            subset_trans[OF checkNesting_mono subset_trans[OF checkArray_mono checkDoc_mono]]])
    have self: "constraintsIssue path \<in> set ?i4" if "needsConstraints (path, schema)"
      by (rule subsetD[OF checkDoc_mono checkArray_emits[OF that]])
    have s5: "set ?i4 \<subseteq> set issues5
        \<and> (\<forall>pn \<in> ?PS. needsConstraints pn \<longrightarrow> constraintsIssue (fst pn) \<in> set issues5)"
      using p5 1(1) by (cases "Properties schema") auto
    have sr: "set issues5 \<subseteq> set r
        \<and> (\<forall>pn \<in> ?IS. needsConstraints pn \<longrightarrow> constraintsIssue (fst pn) \<in> set r)"
      using r5 1(2) by (cases "isArrayTyped schema"; cases "Items schema")
        (auto simp: itemsToVisit_def)
    note s5a = s5[THEN conjunct1] and s5b = s5[THEN conjunct2]
      and sra = sr[THEN conjunct1] and srb = sr[THEN conjunct2]
    have a: "set issues \<subseteq> set r"
      by (rule subset_trans[OF i4 subset_trans[OF s5a sra]])
    have b: "constraintsIssue (fst pn) \<in> set r"
      if mem: "pn \<in> insert (path, schema) (?PS \<union> ?IS)" and nc: "needsConstraints pn" for pn
    proof -
      consider "pn = (path, schema)" | "pn \<in> ?PS" | "pn \<in> ?IS"
        using mem by (elim insertE UnE)
      then show ?thesis
      proof cases
        case 1
        then have "needsConstraints (path, schema)" using nc by simp
        then have "constraintsIssue path \<in> set ?i4" by (rule self)
        then have "constraintsIssue path \<in> set r"
          by (rule subsetD[OF sra subsetD[OF s5a]])
        then show ?thesis using 1 by simp
      next
        case 2
        have "constraintsIssue (fst pn) \<in> set issues5"
          by (rule bspec[OF s5b 2, THEN mp, OF nc])
        then show ?thesis by (rule subsetD[OF sra])
      next
        case 3
        show ?thesis by (rule bspec[OF srb 3, THEN mp, OF nc])
      qed
    qed
    show "set issues \<subseteq> set r
      \<and> (\<forall>pn \<in> set (visitedNodes schema path). needsConstraints pn \<longrightarrow> constraintsIssue (fst pn) \<in> set r)"
      unfolding vs using a b by (intro conjI ballI impI)
  qed
next
  case (2 path)
  then show ?case by simp
next
  case (3 propName propSchema rest path)
  show ?case
  proof (intro allI impI)
    fix depth issues r
    let ?p = "if path = [] then propName else path @ ''.'' @ propName"
    assume v: "validateProperties ((propName, propSchema) # rest) path depth issues = Some r"
    then obtain issues' where
      v1: "validateSchema propSchema ?p (depth + 1) issues = Some issues'"
      and v2: "validateProperties rest path depth issues' = Some r"
      by (auto split: option.splits)
    have h1: "set issues \<subseteq> set issues'
        \<and> (\<forall>pn \<in> set (visitedNodes propSchema ?p). needsConstraints pn \<longrightarrow> constraintsIssue (fst pn) \<in> set issues')"
      using 3(1)[rule_format, OF v1] .
    have h2: "set issues' \<subseteq> set r
        \<and> (\<forall>pn \<in> set (visitedProperties rest path). needsConstraints pn \<longrightarrow> constraintsIssue (fst pn) \<in> set r)"
      using 3(2)[rule_format, OF v2] .
    have m: "set (visitedProperties ((propName, propSchema) # rest) path)
        = set (visitedNodes propSchema ?p) \<union> set (visitedProperties rest path)"
      by simp
    note h1a = h1[THEN conjunct1] and h1b = h1[THEN conjunct2]
      and h2a = h2[THEN conjunct1] and h2b = h2[THEN conjunct2]
    have c: "constraintsIssue (fst pn) \<in> set r"
      if mem: "pn \<in> set (visitedNodes propSchema ?p) \<union> set (visitedProperties rest path)"
        and nc: "needsConstraints pn" for pn
      using mem
    proof (elim UnE)
      assume "pn \<in> set (visitedNodes propSchema ?p)"
      then have "constraintsIssue (fst pn) \<in> set issues'"
        by (rule bspec[OF h1b, THEN mp, OF _ nc])
      then show ?thesis by (rule subsetD[OF h2a])
    next
      assume "pn \<in> set (visitedProperties rest path)"
      then show ?thesis by (rule bspec[OF h2b, THEN mp, OF _ nc])
    qed
    have a: "set issues \<subseteq> set r" by (rule subset_trans[OF h1a h2a])
    show "set issues \<subseteq> set r
      \<and> (\<forall>pn \<in> set (visitedProperties ((propName, propSchema) # rest) path).
            needsConstraints pn \<longrightarrow> constraintsIssue (fst pn) \<in> set r)"
      unfolding m using a c by (intro conjI ballI impI)
  qed
qed

text \<open>
  Claim C4, as the code has it. For every node that the linter visits, whose type includes
  array, whose path contains \<open>secret\<close>, \<open>config\<close> or \<open>certificate\<close> as a substring
  (compared byte by byte, so in lower case), and which has neither \<open>minItems\<close> nor
  \<open>maxItems\<close>, a report that the linter returns holds the info-level diagnostic at that
  node's path.
\<close>

theorem array_constraints_flagged:
  assumes "ValidateHelmBestPractices tree = Some issues"
    and "(path, node) \<in> set (visitedNodes tree [])"
    and "isArrayTyped node"
    and "Contains path ''secret'' \<or> Contains path ''config'' \<or> Contains path ''certificate''"
    and "MinItems node = None" and "MaxItems node = None"
  shows "\<lparr>Path = path,
           Message = ''Consider adding minItems/maxItems constraints for this array'',
           Level = Info\<rparr> \<in> set issues"
proof -
  have "needsConstraints (path, node)" using assms(3-6) by (simp add: needsConstraints_def)
  then have "constraintsIssue (fst (path, node)) \<in> set issues"
    by (rule bspec[OF validate_emits(1)[of tree "[]", rule_format,
        OF assms(1)[unfolded ValidateHelmBestPractices_def], THEN conjunct2] assms(2), THEN mp])
  then show ?thesis by (simp add: constraintsIssue_def)
qed

theorem array_constraints_flagged_witness:
  "ValidateHelmBestPractices certificatesTree =
     Some [\<lparr>Path = ''certificates'',
             Message = ''Consider adding minItems/maxItems constraints for this array'',
             Level = Info\<rparr>,
           \<lparr>Path = ''certificates'', Message = ''Property should have a description'',
             Level = Warning\<rparr>,
           \<lparr>Path = ''certificates[]'', Message = ''Property should have a description'',
             Level = Warning\<rparr>,
           \<lparr>Path = ''certificates[]'', Message = ''Consider adding examples or default value'',
             Level = Info\<rparr>]
   \<and> (''certificates'', stringArray) \<in> set (visitedNodes certificatesTree [])
   \<and> isArrayTyped stringArray
   \<and> Contains ''certificates'' ''certificate''
   \<and> MinItems stringArray = None \<and> MaxItems stringArray = None
   \<and> \<lparr>Path = ''certificates'',
        Message = ''Consider adding minItems/maxItems constraints for this array'',
        Level = Info\<rparr>
       \<in> set [\<lparr>Path = ''certificates'',
             Message = ''Consider adding minItems/maxItems constraints for this array'',
             Level = Info\<rparr>,
           \<lparr>Path = ''certificates'', Message = ''Property should have a description'',
             Level = Warning\<rparr>,
           \<lparr>Path = ''certificates[]'', Message = ''Property should have a description'',
             Level = Warning\<rparr>,
           \<lparr>Path = ''certificates[]'', Message = ''Consider adding examples or default value'',
             Level = Info\<rparr>]"
proof -
  have h1: "ValidateHelmBestPractices certificatesTree =
     Some [\<lparr>Path = ''certificates'',
             Message = ''Consider adding minItems/maxItems constraints for this array'',
             Level = Info\<rparr>,
           \<lparr>Path = ''certificates'', Message = ''Property should have a description'',
             Level = Warning\<rparr>,
           \<lparr>Path = ''certificates[]'', Message = ''Property should have a description'',
             Level = Warning\<rparr>,
           \<lparr>Path = ''certificates[]'', Message = ''Consider adding examples or default value'',
             Level = Info\<rparr>]"
    by (simp add: certificatesTree_def stringArray_def linter_defs)
  have h2: "(''certificates'', stringArray) \<in> set (visitedNodes certificatesTree [])"
    by (simp add: certificatesTree_def stringArray_def linter_defs)
  have h3: "isArrayTyped stringArray" by (simp add: stringArray_def isArrayTyped_def)
  have h4: "Contains ''certificates'' ''secret'' \<or> Contains ''certificates'' ''config''
      \<or> Contains ''certificates'' ''certificate''" by simp
  have h5: "MinItems stringArray = None" and h6: "MaxItems stringArray = None"
    by (simp_all add: stringArray_def)
  note res = array_constraints_flagged[OF h1 h2 h3 h4 h5 h6]
  have h4': "Contains ''certificates'' ''certificate''" by simp
  from h1 h2 h3 h4' h5 h6 res show ?thesis by (intro conjI)
qed

text \<open>
  Claim C4 as stated (a case-insensitive match) fails: the path \<open>mySecrets\<close> contains
  \<open>secret\<close> once it is lowered, and the report has no diagnostic about element counts.
\<close>

theorem array_constraints_flagged_counterexample:
  "Contains (ToLower ''mySecrets'') ''secret''
   \<and> (''mySecrets'', stringArray) \<in> set (visitedNodes secretsTree [])
   \<and> isArrayTyped stringArray
   \<and> MinItems stringArray = None \<and> MaxItems stringArray = None
   \<and> ValidateHelmBestPractices secretsTree =
     Some [\<lparr>Path = ''mySecrets'', Message = ''Property should have a description'',
             Level = Warning\<rparr>,
           \<lparr>Path = ''mySecrets[]'', Message = ''Property should have a description'',
             Level = Warning\<rparr>,
           \<lparr>Path = ''mySecrets[]'', Message = ''Consider adding examples or default value'',
             Level = Info\<rparr>]"
  by (simp add: secretsTree_def stringArray_def linter_defs ToLower_def toLowerByte_def)

subsection \<open>Named shapes\<close>

lemma imageKeys_eq:
  "imageKeys props (r, t) =
     (r \<or> ''repository'' \<in> fst ` set props, t \<or> ''tag'' \<in> fst ` set props)"
  by (induction props "(r, t)" arbitrary: r t rule: imageKeys.induct) auto

lemma resourceKeys_eq:
  "resourceKeys props (l, r) =
     (l \<or> ''limits'' \<in> fst ` set props, r \<or> ''requests'' \<in> fst ` set props)"
  by (induction props "(l, r)" arbitrary: l r rule: resourceKeys.induct) auto

lemma isImageConfig_iff:
  "isImageConfig s \<longleftrightarrow> Type s = Single TypeObject
     \<and> (\<exists>props. Properties s = Some props
          \<and> ''repository'' \<in> fst ` set props \<and> ''tag'' \<in> fst ` set props)"
  by (auto simp: isImageConfig_def imageKeys_eq split: option.splits)

lemma isResourcesConfig_iff:
  "isResourcesConfig s \<longleftrightarrow> Type s = Single TypeObject
     \<and> (\<exists>props. Properties s = Some props
          \<and> (''limits'' \<in> fst ` set props \<or> ''requests'' \<in> fst ` set props))"
  by (auto simp: isResourcesConfig_def resourceKeys_eq split: option.splits)

lemma specializeProperties_keys: "fst ` set (specializeProperties ps) = fst ` set ps"
proof (induction ps)
  case Nil
  then show ?case by simp
next
  case (Cons a ps)
  then show ?case by (cases a) simp
qed

lemma canonical_image: "list_all canonicalNode (allNodes (createImageSchema p))"
  by (simp add: createImageSchema_def canonicalNode_def isImageConfig_def isResourcesConfig_def)

lemma canonical_resources: "list_all canonicalNode (allNodes (createResourcesSchema p))"
  by (simp add: createResourcesSchema_def resourceQuantity_def canonicalNode_def
      isImageConfig_def isResourcesConfig_def)

lemma specialize_canonical_aux:
  "list_all nodeShaped (allNodes s) \<longrightarrow> list_all canonicalNode (allNodes (SpecializeSchemaForHelm s))"
  "list_all nodeShaped (allNodesOf ps) \<longrightarrow> list_all canonicalNode (allNodesOf (specializeProperties ps))"
proof (induction s and ps rule: SpecializeSchemaForHelm_specializeProperties.induct)
  case (1 uri title desc ty fmt props req its mn mx en dflt ex path)
  let ?s = "Schema uri title desc ty fmt props req its mn mx en dflt ex path"
  show ?case
  proof
    assume sh: "list_all nodeShaped (allNodes ?s)"
    show "list_all canonicalNode (allNodes (SpecializeSchemaForHelm ?s))"
    proof (cases "isImageConfig ?s")
      case True
      then show ?thesis by (simp add: canonical_image)
    next
      case False
      note ni = False
      show ?thesis
      proof (cases "isResourcesConfig ?s")
        case True
        then show ?thesis using ni by (simp add: canonical_resources)
      next
        case False
        note nr = False
        let ?props' = "if ty = Single TypeObject
           then (case props of None \<Rightarrow> None | Some ps \<Rightarrow> Some (specializeProperties ps))
           else props"
        let ?its' = "if ty = Single TypeArray
           then (case its of None \<Rightarrow> None | Some item \<Rightarrow> Some (SpecializeSchemaForHelm item))
           else its"
        let ?r = "Schema uri title desc ty fmt ?props' req ?its' mn mx en dflt ex path"
        have res: "SpecializeSchemaForHelm ?s = ?r" using ni nr by simp
        have shaped: "(props = None \<or> ty = Single TypeObject) \<and> (its = None \<or> ty = Single TypeArray)"
          using sh by (simp add: nodeShaped_def)
        have ri: "\<not> isImageConfig ?r"
          using ni by (cases props) (auto simp: isImageConfig_iff specializeProperties_keys)
        have rr: "\<not> isResourcesConfig ?r"
          using nr by (cases props) (auto simp: isResourcesConfig_iff specializeProperties_keys)
        have self: "canonicalNode ?r" using ri rr by (simp add: canonicalNode_def)
        have pc: "list_all canonicalNode (case ?props' of None \<Rightarrow> [] | Some ps \<Rightarrow> allNodesOf ps)"
        proof (cases props)
          case None
          then show ?thesis by simp
        next
          case (Some ps)
          then have ty: "ty = Single TypeObject" using shaped by simp
          have "list_all nodeShaped (allNodesOf ps)" using sh Some by simp
          then have "list_all canonicalNode (allNodesOf (specializeProperties ps))"
            using 1(1)[OF ni nr ty Some] by simp
          then show ?thesis using Some ty by simp
        qed
        have ic: "list_all canonicalNode (case ?its' of None \<Rightarrow> [] | Some item \<Rightarrow> allNodes item)"
        proof (cases its)
          case None
          then show ?thesis by simp
        next
          case (Some item)
          then have ty: "ty = Single TypeArray" using shaped by simp
          have "list_all nodeShaped (allNodes item)" using sh Some by simp
          then have "list_all canonicalNode (allNodes (SpecializeSchemaForHelm item))"
            using 1(2)[OF ni nr ty Some] by simp
          then show ?thesis using Some ty by simp
        qed
        have "list_all canonicalNode (allNodes ?r)"
          using self pc ic by (simp only: allNodes.simps list.pred_inject list_all_append simp_thms)
        then show ?thesis by (simp only: res)
      qed
    qed
  qed
next
  case 2
  then show ?case by simp
next
  case (3 key propSchema rest)
  then show ?case by simp
qed

text \<open>
  Claim C3, as the code has it. A node of the container-image shape is returned as the
  image fragment at once, and otherwise a node of the resource-requirements shape as the
  resources fragment, without a visit to its children. Any other node is kept, and
  \<open>SpecializeSchemaForHelm\<close> recurses into its properties when its type is exactly object
  and into its items when its type is exactly array. So for a tree whose nodes have
  properties on objects only and items on arrays only, every node of the result that has
  a named shape is the canonical fragment of that shape.
\<close>

theorem specialize_canonical:
  assumes "list_all nodeShaped (allNodes tree)"
  shows "(isImageConfig tree \<longrightarrow> SpecializeSchemaForHelm tree = createImageSchema (HelmPath tree))
       \<and> (\<not> isImageConfig tree \<and> isResourcesConfig tree \<longrightarrow>
            SpecializeSchemaForHelm tree = createResourcesSchema (HelmPath tree))
       \<and> list_all canonicalNode (allNodes (SpecializeSchemaForHelm tree))"
proof (intro conjI impI)
  show "SpecializeSchemaForHelm tree = createImageSchema (HelmPath tree)" if "isImageConfig tree"
    using that by (cases tree) simp
  show "SpecializeSchemaForHelm tree = createResourcesSchema (HelmPath tree)"
    if "\<not> isImageConfig tree \<and> isResourcesConfig tree"
    using that by (cases tree) simp
  show "list_all canonicalNode (allNodes (SpecializeSchemaForHelm tree))"
    using specialize_canonical_aux(1) assms by blast
qed

lemmas shape_defs = chartTree_def nestedTree_def objectNode_def stringNode_def nodeShaped_def
  canonicalNode_def isImageConfig_def isResourcesConfig_def createImageSchema_def
  createResourcesSchema_def resourceQuantity_def propertyOf_def

theorem specialize_canonical_witness:
  "list_all nodeShaped (allNodes chartTree)
   \<and> list_all canonicalNode (allNodes (SpecializeSchemaForHelm chartTree))
   \<and> propertyOf (SpecializeSchemaForHelm chartTree) ''image'' = Some (createImageSchema ''image'')
   \<and> propertyOf (SpecializeSchemaForHelm chartTree) ''resources''
       = Some (createResourcesSchema ''resources'')"
proof -
  have h: "list_all nodeShaped (allNodes chartTree)" by (simp add: shape_defs)
  have p: "propertyOf (SpecializeSchemaForHelm chartTree) ''image'' = Some (createImageSchema ''image'')
     \<and> propertyOf (SpecializeSchemaForHelm chartTree) ''resources''
       = Some (createResourcesSchema ''resources'')"
    by (simp add: shape_defs)
  show ?thesis using h p specialize_canonical[OF h] by blast
qed

text \<open>
  Claim C3 as stated fails: \<open>nestedTree\<close> has the image shape and holds a property
  \<open>resources\<close> of the resources shape. It is replaced by the image fragment without a
  visit to its properties, and the result has no property \<open>resources\<close> at all.
\<close>

theorem specialize_canonical_counterexample:
  "isImageConfig nestedTree
   \<and> map_option isResourcesConfig (propertyOf nestedTree ''resources'') = Some True
   \<and> SpecializeSchemaForHelm nestedTree = createImageSchema []
   \<and> propertyOf (SpecializeSchemaForHelm nestedTree) ''resources'' = None"
  by (simp add: shape_defs)

end
